theory Spec2Isabelle
  imports Main "HOL-Library.AList"
begin

section \<open>JavaScript values used by the connectors\<close>

text \<open>
  A JavaScript number as far as the connectors use one: a double with an integer value,
  \<open>NaN\<close> (what \<open>parseInt\<close> returns when no digit can be read), or an infinity (what it
  returns for a run of digits beyond the range of a double). Fractions and the negative
  zero are not modelled.
\<close>

datatype jsnum = Num int | NaN | Infinity | NegInfinity

text \<open>The number of binary digits of a positive integer.\<close>

function bitlen :: "int \<Rightarrow> nat" where
  "bitlen a = (if a \<le> 0 then 0 else Suc (bitlen (a div 2)))"
  by pat_completeness auto
termination
  by (relation "measure nat") auto

text \<open>
  The double nearest to an integer: up to 2^53 every integer is a double; beyond, 53
  significant bits are kept, a tie goes to the even neighbour, and a magnitude that
  rounds to 2^1024 or more is an infinity.
\<close>

definition round_double :: "int \<Rightarrow> jsnum" where
  "round_double n =
     (if \<bar>n\<bar> < 9007199254740992 then Num n
      else
        let a = \<bar>n\<bar>;
            e = bitlen a - 53;
            q = a div 2 ^ e;
            r = a mod 2 ^ e;
            q' = (if 2 ^ e < 2 * r \<or> (2 * r = 2 ^ e \<and> odd q) then q + 1 else q);
            v = q' * 2 ^ e
        in if 2 ^ 1024 \<le> v then (if n < 0 then NegInfinity else Infinity)
           else Num (if n < 0 then - v else v))"

fun js_sub :: "jsnum \<Rightarrow> jsnum \<Rightarrow> jsnum" where
  "js_sub (Num a) (Num b) = round_double (a - b)"
| "js_sub NaN _ = NaN"
| "js_sub _ NaN = NaN"
| "js_sub Infinity Infinity = NaN"
| "js_sub NegInfinity NegInfinity = NaN"
| "js_sub Infinity _ = Infinity"
| "js_sub NegInfinity _ = NegInfinity"
| "js_sub (Num a) Infinity = NegInfinity"
| "js_sub (Num a) NegInfinity = Infinity"

text \<open>
  Strings are compared code unit by code unit, which is what \<open>Array.prototype.sort\<close> does
  without a comparator and what \<open><\<close> does on two strings. A string is a list of
  8-bit characters here, where JavaScript has 16-bit code units.
\<close>

fun str_less :: "string \<Rightarrow> string \<Rightarrow> bool" where
  "str_less [] [] = False"
| "str_less [] (y # ys) = True"
| "str_less (x # xs) [] = False"
| "str_less (x # xs) (y # ys) =
     ((of_char x :: nat) < of_char y \<or> (x = y \<and> str_less xs ys))"

text \<open>\<open>Array.prototype.sort()\<close> with the default comparator, as a stable insertion sort.\<close>

fun sort_insert :: "string \<Rightarrow> string list \<Rightarrow> string list" where
  "sort_insert x [] = [x]"
| "sort_insert x (y # ys) = (if str_less x y then x # y # ys else y # sort_insert x ys)"

definition js_sort :: "string list \<Rightarrow> string list" where
  "js_sort xs = foldl (\<lambda>acc x. sort_insert x acc) [] xs"

text \<open>\<open>Array.prototype.join(sep)\<close>.\<close>

fun join :: "string \<Rightarrow> string list \<Rightarrow> string" where
  "join sep [] = []"
| "join sep [x] = x"
| "join sep (x # y # ys) = x @ sep @ join sep (y # ys)"

text \<open>A template literal prints an absent (\<open>undefined\<close>) value as the word \<open>undefined\<close>.\<close>

fun tpl :: "string option \<Rightarrow> string" where
  "tpl None = ''undefined''"
| "tpl (Some s) = s"

definition is_digit :: "char \<Rightarrow> bool" where
  "is_digit c = (48 \<le> (of_char c :: nat) \<and> (of_char c :: nat) \<le> 57)"

text \<open>
  The white space and line terminators that \<open>parseInt\<close> skips, among the code units up
  to 255: tab, line feed, vertical tab, form feed, carriage return, space and the
  no-break space.
\<close>

definition is_space :: "char \<Rightarrow> bool" where
  "is_space c = ((of_char c :: nat) \<in> {9, 10, 11, 12, 13, 32, 160})"

definition digits_value :: "string \<Rightarrow> int" where
  "digits_value ds = foldl (\<lambda>a c. 10 * a + (int (of_char c) - 48)) 0 ds"

text \<open>
  \<open>parseInt(s, 10)\<close>: leading white space is skipped, one sign is read, then the longest
  run of decimal digits; no digit gives \<open>NaN\<close>, and the integer read is rounded to a
  double. The argument is first converted to a string, so an absent field is parsed as
  the word \<open>undefined\<close>.
\<close>

definition parseInt :: "string option \<Rightarrow> jsnum" where
  "parseInt v =
     (let t = dropWhile is_space (tpl v);
          neg = (t \<noteq> [] \<and> hd t = CHR ''-'');
          u = (if t \<noteq> [] \<and> (hd t = CHR ''-'' \<or> hd t = CHR ''+'') then tl t else t);
          ds = takeWhile is_digit u
      in if ds = [] then NaN
         else round_double (if neg then - digits_value ds else digits_value ds))"

section \<open>The result builder\<close>

datatype item_type =
    Complaint | Location | Person
  | Locatedat | Suspectof | Victimof
  | Friendswith

datatype ISourceIdentifier = SourceIdentifier (si_type: string) (si_key: "string list")

text \<open>\<open>records.ResultRecordIdType\<close>: a plain string or a source identifier.\<close>

datatype ResultRecordIdType = StrId string | SrcId ISourceIdentifier

datatype propval =
    PStr string
  | PNum jsnum
  | PPoint jsnum jsnum
  | PDateTime string string bool

record source_reference =
  sr_name :: string
  sr_type :: string
  sr_description :: string

text \<open>
  What a result entity handle refers to: a record of a type with an identifier, or the
  record that wraps a seed.
\<close>

datatype entity_ref = ERef item_type ResultRecordIdType | SeedRef string

record result_entity =
  e_props :: "(string \<times> propval) list"
  e_source :: "source_reference option"

record result_link =
  l_from :: entity_ref
  l_to :: entity_ref
  l_source :: "source_reference option"

text \<open>
  Modelled from the spec: the \<open>Result\<close> class of the SDK (package
  \<open>@i2analyze/i2connect\<close>) is not among the sources. The spec describes the result graph
  as the set of entities and links of one invocation, added to and never removed from,
  in which a record that reappears with the same identifier is the same record (no
  duplicate edge), and a property whose source value is absent is omitted. The
  connectors rely on that: \<open>getFriendsLinkedToSeeds\<close> adds the same person once per
  friend, and \<open>getAll\<close> adds three links of three types under one complaint number. So
  the store is keyed by record type and identifier, in insertion order, \<open>addEntity\<close> and
  \<open>addLink\<close> return the record already stored under the key when there is one, and a
  handle is the key. The connectors get every handle from the store itself, so the two
  ends of a link are in the graph when the link is added.
\<close>

record Result =
  entities :: "(entity_ref \<times> result_entity) list"
  links :: "((item_type \<times> ResultRecordIdType) \<times> result_link) list"

definition new_Result :: Result where
  "new_Result = \<lparr>entities = [], links = []\<rparr>"

definition get_or_create :: "'k \<Rightarrow> 'v \<Rightarrow> ('k \<times> 'v) list \<Rightarrow> ('k \<times> 'v) list" where
  "get_or_create k v al = (if k \<in> fst ` set al then al else al @ [(k, v)])"

definition addEntityRef :: "entity_ref \<Rightarrow> Result \<Rightarrow> entity_ref \<times> Result" where
  "addEntityRef k r =
     (k, r\<lparr>entities := get_or_create k \<lparr>e_props = [], e_source = None\<rparr> (entities r)\<rparr>)"

definition addEntity :: "item_type \<Rightarrow> string \<Rightarrow> Result \<Rightarrow> entity_ref \<times> Result" where
  "addEntity t i r = addEntityRef (ERef t (StrId i)) r"

definition addEntityWithSourceIdentifier ::
  "item_type \<Rightarrow> ISourceIdentifier \<Rightarrow> Result \<Rightarrow> entity_ref \<times> Result" where
  "addEntityWithSourceIdentifier t sid r = addEntityRef (ERef t (SrcId sid)) r"

definition addLinkKey ::
  "item_type \<times> ResultRecordIdType \<Rightarrow> entity_ref \<Rightarrow> entity_ref \<Rightarrow> Result
     \<Rightarrow> (item_type \<times> ResultRecordIdType) \<times> Result" where
  "addLinkKey k a b r =
     (k, r\<lparr>links := get_or_create k \<lparr>l_from = a, l_to = b, l_source = None\<rparr> (links r)\<rparr>)"

definition result_addLink ::
  "item_type \<Rightarrow> string \<Rightarrow> entity_ref \<Rightarrow> entity_ref \<Rightarrow> Result
     \<Rightarrow> (item_type \<times> ResultRecordIdType) \<times> Result" where
  "result_addLink t i a b r = addLinkKey (t, StrId i) a b r"

definition addLinkWithSourceIdentifier ::
  "item_type \<Rightarrow> ISourceIdentifier \<Rightarrow> entity_ref \<Rightarrow> entity_ref \<Rightarrow> Result
     \<Rightarrow> (item_type \<times> ResultRecordIdType) \<times> Result" where
  "addLinkWithSourceIdentifier t sid a b r = addLinkKey (t, SrcId sid) a b r"

text \<open>
  \<open>setProperty(name, value)\<close> on an entity handle: the value replaces the one stored
  under the name; an \<open>undefined\<close> value leaves the entity without the property. The
  store keeps every value it is given; whether the SDK refuses some (a \<open>NaN\<close>, say) is
  not known from the sources, and no statement below depends on it.
\<close>

definition set_prop :: "string \<Rightarrow> propval option \<Rightarrow> result_entity \<Rightarrow> result_entity" where
  "set_prop n v e =
     (case v of
        None \<Rightarrow> e\<lparr>e_props := AList.delete n (e_props e)\<rparr>
      | Some x \<Rightarrow> e\<lparr>e_props := AList.update n x (e_props e)\<rparr>)"

definition setProperty :: "entity_ref \<Rightarrow> string \<Rightarrow> propval option \<Rightarrow> Result \<Rightarrow> Result" where
  "setProperty k n v r = r\<lparr>entities := AList.map_entry k (set_prop n v) (entities r)\<rparr>"

text \<open>\<open>setProperties({...})\<close> sets the listed properties in the order of the literal.\<close>

fun setProperties :: "entity_ref \<Rightarrow> (string \<times> propval option) list \<Rightarrow> Result \<Rightarrow> Result" where
  "setProperties k [] r = r"
| "setProperties k ((n, v) # ps) r = setProperties k ps (setProperty k n v r)"

definition setSourceReference :: "entity_ref \<Rightarrow> source_reference \<Rightarrow> Result \<Rightarrow> Result" where
  "setSourceReference k s r =
     r\<lparr>entities := AList.map_entry k (\<lambda>e. e\<lparr>e_source := Some s\<rparr>) (entities r)\<rparr>"

definition link_setSourceReference ::
  "item_type \<times> ResultRecordIdType \<Rightarrow> source_reference \<Rightarrow> Result \<Rightarrow> Result" where
  "link_setSourceReference k s r =
     r\<lparr>links := AList.map_entry k (\<lambda>l. l\<lparr>l_source := Some s\<rparr>) (links r)\<rparr>"

section \<open>The example connector\<close>

text \<open>
  The identifier of a Friendswith link, as \<open>getFriendsLinkedToSeeds\<close> computes it:
  \<open>idFactory([person.id, friend.id].sort().join('-'))\<close>.
\<close>

definition friend_link_id ::
  "(string \<Rightarrow> ResultRecordIdType) \<Rightarrow> string \<Rightarrow> string \<Rightarrow> ResultRecordIdType" where
  "friend_link_id idFactory person_id friend_id =
     idFactory (join ''-'' (js_sort [person_id, friend_id]))"

text \<open>
  Modelled from the spec: the module \<open>./data-access\<close> (\<open>IPerson\<close>, \<open>lookupPeople\<close>) is
  not among the sources. The spec describes it as an in-memory lookup filtered by a
  predicate over a long-lived data set that is only read. The fields are the ones the
  connector reads.
\<close>

record IPerson =
  person_id :: string
  forename :: string
  surname :: string
  dob :: string
  ssn :: string
  issuedDateAndTime :: string
  friends :: "string list"

definition lookupPeople :: "IPerson list \<Rightarrow> (IPerson \<Rightarrow> bool) \<Rightarrow> IPerson list" where
  "lookupPeople dataset predicate = filter predicate dataset"

text \<open>
  What the connector reads from its host: the calendar year of \<open>new Date()\<close>, the year
  \<open>new Date(s).getFullYear()\<close> of a date string (\<open>NaN\<close> for an invalid date), and whether
  \<open>a.localeCompare(b) === 0\<close>.
\<close>

record host =
  now_year :: int
  date_year :: "string \<Rightarrow> jsnum"
  locale_equal :: "string \<Rightarrow> string \<Rightarrow> bool"

text \<open>
  Modelled from the spec: the seed records belong to the SDK as well. A seed is an
  entity supplied by the caller: it has a type and property values, and, since one seed
  can stand for several merged source records, the connector keys and the source
  identifiers of those records. A property read under another type than the seed's is
  undefined, which \<open>expand\<close> relies on when it reads the properties of both types.
\<close>

record IConnectorKey =
  ck_type :: item_type
  ck_id :: string

record ISeedEntityRecord =
  seedId :: string
  seed_type :: item_type
  seed_props :: "(string \<times> propval) list"
  connectorKeys :: "IConnectorKey list"
  sourceIdentifiers :: "ISourceIdentifier list"

definition isType :: "ISeedEntityRecord \<Rightarrow> item_type \<Rightarrow> bool" where
  "isType seed t = (seed_type seed = t)"

definition getProperty :: "ISeedEntityRecord \<Rightarrow> item_type \<Rightarrow> string \<Rightarrow> propval option" where
  "getProperty seed t n = (if isType seed t then map_of (seed_props seed) n else None)"

definition connectorKeysByType :: "ISeedEntityRecord \<Rightarrow> item_type \<Rightarrow> IConnectorKey list" where
  "connectorKeysByType seed t = filter (\<lambda>k. ck_type k = t) (connectorKeys seed)"

definition addEntityFromSeed :: "ISeedEntityRecord \<Rightarrow> Result \<Rightarrow> entity_ref \<times> Result" where
  "addEntityFromSeed seed r = addEntityRef (SeedRef (seedId seed)) r"

text \<open>
  \<open>toLowerCase\<close> on the code units up to 255 (the letters A to Z and the capital
  letters of Latin-1), and \<open>String.prototype.includes\<close>.
\<close>

definition to_lower :: "char \<Rightarrow> char" where
  "to_lower c =
     (let n = (of_char c :: nat) in
      if (65 \<le> n \<and> n \<le> 90) \<or> (192 \<le> n \<and> n \<le> 222 \<and> n \<noteq> 215)
      then char_of (n + 32) else c)"

fun str_includes :: "string \<Rightarrow> string \<Rightarrow> bool" where
  "str_includes [] t = (t = [])"
| "str_includes (c # s) t = (take (length t) (c # s) = t \<or> str_includes s t)"

definition caseInsensitiveContains :: "string \<Rightarrow> string \<Rightarrow> bool" where
  "caseInsensitiveContains source searchValue =
     str_includes (map to_lower source) (map to_lower searchValue)"

definition customSourceIdentifierType :: string where
  "customSourceIdentifierType =
     ''This value should be unique to your data source - do not reuse''"

definition createCustomSourceIdentifier :: "string \<Rightarrow> ResultRecordIdType" where
  "createCustomSourceIdentifier i = SrcId (SourceIdentifier customSourceIdentifierType [i])"

definition personSourceRef :: source_reference where
  "personSourceRef =
     \<lparr>sr_name = ''Example source name'', sr_type = ''Example source type'',
      sr_description = ''An example source reference from a connected data source''\<rparr>"

text \<open>
  \<open>addPersonToResult\<close>. The default of \<open>idFactory\<close>, \<open>(id) => id\<close>, is \<open>StrId\<close>; the
  callers that leave the argument out pass it.
\<close>

definition addPersonToResult ::
  "host \<Rightarrow> IPerson \<Rightarrow> Result \<Rightarrow> (string \<Rightarrow> ResultRecordIdType) \<Rightarrow> entity_ref \<times> Result" where
  "addPersonToResult h person result idFactory =
     (let (resultEntity, r0) =
            (case idFactory (person_id person) of
               StrId s \<Rightarrow> addEntity Person s result
             | SrcId sid \<Rightarrow> addEntityWithSourceIdentifier Person sid result);
          r1 = setProperty resultEntity ''First Name'' (Some (PStr (forename person))) r0;
          r2 = setProperty resultEntity ''Last Name'' (Some (PStr (surname person))) r1;
          r3 = setProperty resultEntity ''Year of Birth'' (Some (PStr (dob person))) r2;
          r4 = setProperty resultEntity ''Age''
                 (Some (PNum (js_sub (Num (now_year h)) (date_year h (dob person))))) r3;
          r5 = setProperty resultEntity ''SSN'' (Some (PStr (ssn person))) r4;
          r6 = setProperty resultEntity ''SSN Issued Date and Time''
                 (Some (PDateTime (issuedDateAndTime person) ''Europe/London'' False)) r5;
          r7 = setSourceReference resultEntity personSourceRef r6
      in (resultEntity, r7))"

definition extractIdsFromConnectorKeys :: "IConnectorKey list \<Rightarrow> string set" where
  "extractIdsFromConnectorKeys keys = set (map ck_id keys)"

definition wildcardSearchTerm :: string where
  "wildcardSearchTerm = ''*''"

fun addPeople ::
  "host \<Rightarrow> IPerson list \<Rightarrow> Result \<Rightarrow> (string \<Rightarrow> ResultRecordIdType) \<Rightarrow> Result" where
  "addPeople h [] result idFactory = result"
| "addPeople h (person # people) result idFactory =
     addPeople h people (snd (addPersonToResult h person result idFactory)) idFactory"

definition findPeople ::
  "host \<Rightarrow> IPerson list \<Rightarrow> string \<Rightarrow> (string \<Rightarrow> ResultRecordIdType) \<Rightarrow> Result" where
  "findPeople h dataset term idFactory =
     (let predicate = (\<lambda>person.
            term = wildcardSearchTerm
            \<or> caseInsensitiveContains (forename person) term
            \<or> caseInsensitiveContains (surname person) term);
          people = lookupPeople dataset predicate
      in addPeople h people new_Result idFactory)"

text \<open>The body of the innermost loop of \<open>getFriendsLinkedToSeeds\<close>.\<close>

definition linkFriend ::
  "host \<Rightarrow> (string \<Rightarrow> ResultRecordIdType) \<Rightarrow> IPerson \<Rightarrow> IPerson \<Rightarrow> Result \<Rightarrow> Result" where
  "linkFriend h idFactory person friend result =
     (let (personEntity, r1) = addPersonToResult h person result idFactory;
          (friendEntity, r2) = addPersonToResult h friend r1 idFactory
      in case friend_link_id idFactory (person_id person) (person_id friend) of
           StrId s \<Rightarrow> snd (result_addLink Friendswith s personEntity friendEntity r2)
         | SrcId sid \<Rightarrow>
             snd (addLinkWithSourceIdentifier Friendswith sid personEntity friendEntity r2))"

fun forFriends ::
  "host \<Rightarrow> (string \<Rightarrow> ResultRecordIdType) \<Rightarrow> IPerson \<Rightarrow> IPerson list \<Rightarrow> Result \<Rightarrow> Result" where
  "forFriends h idFactory person [] result = result"
| "forFriends h idFactory person (friend # fs) result =
     forFriends h idFactory person fs (linkFriend h idFactory person friend result)"

fun forPeople ::
  "host \<Rightarrow> IPerson list \<Rightarrow> (string \<Rightarrow> ResultRecordIdType) \<Rightarrow> IPerson list \<Rightarrow> Result \<Rightarrow> Result" where
  "forPeople h dataset idFactory [] result = result"
| "forPeople h dataset idFactory (person # people) result =
     forPeople h dataset idFactory people
       (forFriends h idFactory person
          (lookupPeople dataset (\<lambda>friend. person_id friend \<in> set (friends person))) result)"

fun forSeeds ::
  "host \<Rightarrow> IPerson list \<Rightarrow> (ISeedEntityRecord \<Rightarrow> string set)
     \<Rightarrow> (string \<Rightarrow> ResultRecordIdType) \<Rightarrow> ISeedEntityRecord list \<Rightarrow> Result \<Rightarrow> Result" where
  "forSeeds h dataset extractIdsFromSeed idFactory [] result = result"
| "forSeeds h dataset extractIdsFromSeed idFactory (seed # seeds) result =
     forSeeds h dataset extractIdsFromSeed idFactory seeds
       (forPeople h dataset idFactory
          (lookupPeople dataset (\<lambda>person. person_id person \<in> extractIdsFromSeed seed)) result)"

definition getFriendsLinkedToSeeds ::
  "host \<Rightarrow> IPerson list \<Rightarrow> ISeedEntityRecord list \<Rightarrow> (ISeedEntityRecord \<Rightarrow> string set)
     \<Rightarrow> (string \<Rightarrow> ResultRecordIdType) \<Rightarrow> Result" where
  "getFriendsLinkedToSeeds h dataset seeds extractIdsFromSeed idFactory =
     forSeeds h dataset extractIdsFromSeed idFactory seeds new_Result"

datatype error = Error string | TypeError | FetchError string | LookupFailed

text \<open>The value of \<open>v || ''\<close> for a property that the schema declares as a string.\<close>

fun str_or_empty :: "propval option \<Rightarrow> string" where
  "str_or_empty (Some (PStr s)) = s"
| "str_or_empty _ = []"

text \<open>
  \<open>exampleSeededSearch1\<close>. The service is declared with exactly one seed; were there
  none, reading a property of \<open>seeds.entities[0]\<close> would throw a TypeError.
  The year of birth is compared only when the seed has a non-empty one (\<open>!!dob\<close>).
\<close>

definition exampleSeededSearch1 ::
  "host \<Rightarrow> IPerson list \<Rightarrow> ISeedEntityRecord list \<Rightarrow> bool option \<Rightarrow> error + Result" where
  "exampleSeededSearch1 h dataset seeds useYearOfBirth =
     (case seeds of
        [] \<Rightarrow> Inl TypeError
      | seed # _ \<Rightarrow>
          (let forename' = str_or_empty (getProperty seed Person ''First Name'');
               surname' = str_or_empty (getProperty seed Person ''Last Name'');
               dob' = str_or_empty (getProperty seed Person ''Year of Birth'');
               connectorKeyIds = extractIdsFromConnectorKeys (connectorKeysByType seed Person);
               predicate = (\<lambda>person.
                 if person_id person \<in> connectorKeyIds then False
                 else locale_equal h (forename person) forename'
                      \<or> locale_equal h (surname person) surname'
                      \<or> (useYearOfBirth = Some True \<and> dob' \<noteq> []
                          \<and> take 4 (dob person) = take 4 dob'));
               people = lookupPeople dataset predicate
           in Inr (addPeople h people new_Result StrId)))"

definition exampleSearch :: "host \<Rightarrow> IPerson list \<Rightarrow> string \<Rightarrow> Result" where
  "exampleSearch h dataset term = findPeople h dataset term StrId"

definition exampleSeededSearch2 :: "host \<Rightarrow> IPerson list \<Rightarrow> ISeedEntityRecord list \<Rightarrow> Result" where
  "exampleSeededSearch2 h dataset seeds =
     getFriendsLinkedToSeeds h dataset seeds
       (\<lambda>seed. extractIdsFromConnectorKeys (connectorKeysByType seed Person)) StrId"

definition exampleSearchWithCustomSourceIdentifiers ::
  "host \<Rightarrow> IPerson list \<Rightarrow> string \<Rightarrow> Result" where
  "exampleSearchWithCustomSourceIdentifiers h dataset term =
     findPeople h dataset term createCustomSourceIdentifier"

definition exampleSeededSearch2WithCustomSourceIdentifiers ::
  "host \<Rightarrow> IPerson list \<Rightarrow> ISeedEntityRecord list \<Rightarrow> Result" where
  "exampleSeededSearch2WithCustomSourceIdentifiers h dataset seeds =
     getFriendsLinkedToSeeds h dataset seeds
       (\<lambda>seed. set (concat (map (\<lambda>sid. take 1 (si_key sid))
                  (filter (\<lambda>sid. si_type sid = customSourceIdentifierType)
                     (sourceIdentifiers seed)))))
       createCustomSourceIdentifier"

text \<open>
  Modelled from the spec: \<open>asyncLookupPeople\<close> of \<open>./data-access\<close> is not among the
  sources. The spec describes a lookup that runs for a configured duration and then
  resolves into either the people found or an explicit failure, as a flag says.
\<close>

definition asyncLookupPeople ::
  "IPerson list \<Rightarrow> (IPerson \<Rightarrow> bool) \<Rightarrow> int \<Rightarrow> bool \<Rightarrow> error + IPerson list" where
  "asyncLookupPeople dataset predicate seconds shouldFail =
     (if shouldFail then Inl LookupFailed else Inr (filter predicate dataset))"

text \<open>
  \<open>asyncExampleSearch\<close>. The substatus message goes to the polling state of the
  request, which is not part of the graph.
\<close>

definition asyncExampleSearch ::
  "host \<Rightarrow> IPerson list \<Rightarrow> int option \<Rightarrow> bool option \<Rightarrow> error + Result" where
  "asyncExampleSearch h dataset seconds shouldFail =
     (let durationSeconds = (case seconds of None \<Rightarrow> 10 | Some n \<Rightarrow> if n = 0 then 10 else n)
      in case asyncLookupPeople dataset (\<lambda>person. True) durationSeconds (shouldFail = Some True) of
           Inl e \<Rightarrow> Inl e
         | Inr people \<Rightarrow> Inr (addPeople h people new_Result StrId))"

section \<open>The NYPD connector\<close>

text \<open>
  A row of the complaint data set. The interface declares every field a string, but the
  rows are the parsed response body, cast without a check, so a field can be absent
  (\<open>None\<close>, \<open>undefined\<close> in the source).
\<close>

record IComplaintDto =
  cmplnt_num :: "string option"
  crm_atpt_cptd_cd :: "string option"
  jurisdiction_code :: "string option"
  ky_cd :: "string option"
  law_cat_cd :: "string option"
  ofns_desc :: "string option"
  addr_pct_cd :: "string option"
  boro_nm :: "string option"
  latitude :: "string option"
  longitude :: "string option"
  vic_age_group :: "string option"
  vic_race :: "string option"
  vic_sex :: "string option"
  susp_age_group :: "string option"
  susp_race :: "string option"
  susp_sex :: "string option"

text \<open>
  The response of \<open>fetch\<close>: the status, the reason phrase, and what \<open>response.json()\<close>
  resolves to (it rejects on a body that is not JSON). \<open>fetch\<close> itself rejects when no
  response arrives.
\<close>

record response =
  status :: int
  statusText :: string
  json :: "error + IComplaintDto list"

definition requestData ::
  "(string \<Rightarrow> error + response) \<Rightarrow> string \<Rightarrow> error + IComplaintDto list" where
  "requestData fetch url =
     (case fetch url of
        Inl e \<Rightarrow> Inl e
      | Inr resp \<Rightarrow>
          if status resp = 200 then json resp else Inl (Error (statusText resp)))"

definition baseUrl :: string where
  "baseUrl = ''https://data.cityofnewyork.us/resource/7x9x-zpz6.json''"

definition hex_digit :: "nat \<Rightarrow> char" where
  "hex_digit n = (if n < 10 then char_of (48 + n) else char_of (55 + n))"

text \<open>
  The serialisation of \<open>URLSearchParams\<close> (application/x-www-form-urlencoded): the
  UTF-8 bytes of a character are percent-encoded, two bytes for a code unit from 128 to
  255.
\<close>

definition percent_byte :: "nat \<Rightarrow> string" where
  "percent_byte b = [CHR ''%'', hex_digit (b div 16), hex_digit (b mod 16)]"

definition form_encode_char :: "char \<Rightarrow> string" where
  "form_encode_char c =
     (let n = (of_char c :: nat) in
      if (48 \<le> n \<and> n \<le> 57) \<or> (65 \<le> n \<and> n \<le> 90) \<or> (97 \<le> n \<and> n \<le> 122)
         \<or> c \<in> {CHR ''*'', CHR ''-'', CHR ''.'', CHR ''_''}
      then [c]
      else if c = CHR '' '' then ''+''
      else if n < 128 then percent_byte n
      else percent_byte (192 + n div 64) @ percent_byte (128 + n mod 64))"

definition form_encode :: "string \<Rightarrow> string" where
  "form_encode s = concat (map form_encode_char s)"

text \<open>\<open>getUrl\<close>; the application token of the source is the empty string, so none is added.\<close>

definition getUrl :: "(string \<times> string) list \<Rightarrow> string" where
  "getUrl params =
     (if params = [] then baseUrl
      else baseUrl @ ''?''
           @ join ''&'' (map (\<lambda>(k, v). form_encode k @ ''='' @ form_encode v) params))"

definition exampleSourceRef :: source_reference where
  "exampleSourceRef =
     \<lparr>sr_name = ''NYPD Complaint Dataset'', sr_type = ''Open source data'',
      sr_description =
        ''A source reference to the corresponding record from the NYPD Complaint Dataset.''\<rparr>"

definition addLocation :: "IComplaintDto \<Rightarrow> Result \<Rightarrow> entity_ref \<times> Result" where
  "addLocation datum result =
     (let locationId =
            ''Borough: '' @ tpl (boro_nm datum) @ '' Precinct: '' @ tpl (addr_pct_cd datum);
          (entity, r0) = addEntity Location locationId result;
          r1 = setProperties entity
                 [(''Precinct Code'', Some (PNum (parseInt (addr_pct_cd datum)))),
                  (''Borough Name'', map_option PStr (boro_nm datum)),
                  (''Coordinates'',
                     Some (PPoint (parseInt (latitude datum)) (parseInt (longitude datum))))] r0;
          r2 = setSourceReference entity exampleSourceRef r1
      in (entity, r2))"

definition addComplaint :: "IComplaintDto \<Rightarrow> Result \<Rightarrow> entity_ref \<times> Result" where
  "addComplaint datum result =
     (let complaintId = ''Complaint: '' @ tpl (cmplnt_num datum);
          (entity, r0) = addEntity Complaint complaintId result;
          r1 = setProperties entity
                 [(''Complaint Number'', map_option PStr (cmplnt_num datum)),
                  (''Crime Status'', map_option PStr (crm_atpt_cptd_cd datum)),
                  (''Jurisdiction Code'', Some (PNum (parseInt (jurisdiction_code datum)))),
                  (''Offence Classification Code'', Some (PNum (parseInt (ky_cd datum)))),
                  (''Level Of Offence'', map_option PStr (law_cat_cd datum)),
                  (''Offence Description'', map_option PStr (ofns_desc datum))] r0;
          r2 = setSourceReference entity exampleSourceRef r1
      in (entity, r2))"

definition addSuspect :: "IComplaintDto \<Rightarrow> Result \<Rightarrow> entity_ref \<times> Result" where
  "addSuspect datum result =
     (let suspectId = ''Suspect: '' @ tpl (cmplnt_num datum);
          (entity, r0) = addEntity Person suspectId result;
          r1 = setProperties entity
                 [(''Age Group'', map_option PStr (susp_age_group datum)),
                  (''Race'', map_option PStr (susp_race datum)),
                  (''Sex'', map_option PStr (susp_sex datum))] r0;
          r2 = setSourceReference entity exampleSourceRef r1
      in (entity, r2))"

definition addVictim :: "IComplaintDto \<Rightarrow> Result \<Rightarrow> entity_ref \<times> Result" where
  "addVictim datum result =
     (let victimId = ''Victim: '' @ tpl (cmplnt_num datum);
          (entity, r0) = addEntity Person victimId result;
          r1 = setProperties entity
                 [(''Age Group'', map_option PStr (vic_age_group datum)),
                  (''Race'', map_option PStr (vic_race datum)),
                  (''Sex'', map_option PStr (vic_sex datum))] r0;
          r2 = setSourceReference entity exampleSourceRef r1
      in (entity, r2))"

text \<open>
  \<open>addLink\<close> of the connector. The identifier is the complaint number of the row.
  The source hands an absent one to the SDK as the value \<open>undefined\<close>; here the link is
  then stored under the word \<open>undefined\<close>, the way the entity identifiers print it.
\<close>

definition addLink ::
  "item_type \<Rightarrow> string option \<Rightarrow> entity_ref \<Rightarrow> entity_ref \<Rightarrow> Result \<Rightarrow> Result" where
  "addLink linkType i fromEnd toEnd result =
     (let (link, r0) = result_addLink linkType (tpl i) fromEnd toEnd result
      in link_setSourceReference link exampleSourceRef r0)"

text \<open>The body of the loop of \<open>getAll\<close>.\<close>

definition getAll_row :: "IComplaintDto \<Rightarrow> Result \<Rightarrow> Result" where
  "getAll_row datum result =
     (let (locationEntity, r1) = addLocation datum result;
          (complaintEntity, r2) = addComplaint datum r1;
          (suspectEntity, r3) = addSuspect datum r2;
          (victimEntity, r4) = addVictim datum r3;
          r5 = addLink Locatedat (cmplnt_num datum) complaintEntity locationEntity r4;
          r6 = addLink Victimof (cmplnt_num datum) victimEntity complaintEntity r5
      in addLink Suspectof (cmplnt_num datum) suspectEntity complaintEntity r6)"

fun getAll_rows :: "IComplaintDto list \<Rightarrow> Result \<Rightarrow> Result" where
  "getAll_rows [] result = result"
| "getAll_rows (datum # data) result = getAll_rows data (getAll_row datum result)"

definition getAll :: "(string \<Rightarrow> error + response) \<Rightarrow> error + Result" where
  "getAll fetch =
     (case requestData fetch (getUrl [(''$limit'', ''100'')]) of
        Inl e \<Rightarrow> Inl e
      | Inr data \<Rightarrow> Inr (getAll_rows data new_Result))"

fun show_nat :: "nat \<Rightarrow> string" where
  "show_nat n =
     (if n < 10 then [char_of (48 + n)]
      else show_nat (n div 10) @ [char_of (48 + n mod 10)])"

definition show_int :: "int \<Rightarrow> string" where
  "show_int i = (if i < 0 then CHR ''-'' # show_nat (nat (- i)) else show_nat (nat i))"

text \<open>
  \<open>${v || ''}\<close>: a missing value, the empty string, zero and \<open>NaN\<close> are falsy and print
  as the empty string; an object prints as \<open>[object Object]\<close>. An integer is printed
  in decimal digits, as JavaScript does below 10^21 (from there on it prints an
  exponent).
\<close>

fun tpl_or_empty :: "propval option \<Rightarrow> string" where
  "tpl_or_empty None = []"
| "tpl_or_empty (Some (PStr s)) = s"
| "tpl_or_empty (Some (PNum NaN)) = []"
| "tpl_or_empty (Some (PNum (Num n))) = (if n = 0 then [] else show_int n)"
| "tpl_or_empty (Some (PNum Infinity)) = ''Infinity''"
| "tpl_or_empty (Some (PNum NegInfinity)) = ''-Infinity''"
| "tpl_or_empty (Some (PPoint x y)) = ''[object Object]''"
| "tpl_or_empty (Some (PDateTime d z b)) = ''[object Object]''"

text \<open>The body of the loop of \<open>expand\<close>, with the seed and the entity that wraps it.\<close>

definition expand_row ::
  "ISeedEntityRecord \<Rightarrow> entity_ref \<Rightarrow> IComplaintDto \<Rightarrow> Result \<Rightarrow> Result" where
  "expand_row seed seedEntity datum result =
     (let (complaintEntity, r1) =
            (if isType seed Complaint then (seedEntity, result) else addComplaint datum result);
          (locationEntity, r2) =
            (if isType seed Location then (seedEntity, r1) else addLocation datum r1);
          (suspectEntity, r3) = addSuspect datum r2;
          (victimEntity, r4) = addVictim datum r3;
          r5 = addLink Locatedat (cmplnt_num datum) complaintEntity locationEntity r4;
          r6 = addLink Victimof (cmplnt_num datum) victimEntity complaintEntity r5
      in addLink Suspectof (cmplnt_num datum) suspectEntity complaintEntity r6)"

fun expand_rows ::
  "ISeedEntityRecord \<Rightarrow> entity_ref \<Rightarrow> IComplaintDto list \<Rightarrow> Result \<Rightarrow> Result" where
  "expand_rows seed seedEntity [] result = result"
| "expand_rows seed seedEntity (datum # data) result =
     expand_rows seed seedEntity data (expand_row seed seedEntity datum result)"

definition expand_url :: "ISeedEntityRecord \<Rightarrow> string" where
  "expand_url seed =
     (let complaintNumber = tpl_or_empty (getProperty seed Complaint ''Complaint Number'');
          boroughName = tpl_or_empty (getProperty seed Location ''Borough Name'');
          precinctCode = tpl_or_empty (getProperty seed Location ''Precinct Code'');
          query = (if isType seed Complaint
                   then ''cmplnt_num='' @ complaintNumber
                   else ''boro_nm='' @ [CHR 0x22] @ boroughName @ [CHR 0x22]
                        @ '' AND addr_pct_cd='' @ precinctCode)
      in getUrl [(''$limit'', ''50''), (''$where'', query)])"

text \<open>
  \<open>expand\<close>, with the conditional expression of the source that wraps the seed. The
  service is declared with exactly one seed; with none, reading a property of
  \<open>seeds.entities[0]\<close> throws a TypeError.
\<close>

definition expand ::
  "(string \<Rightarrow> error + response) \<Rightarrow> ISeedEntityRecord list \<Rightarrow> error + Result" where
  "expand fetch seeds =
     (case seeds of
        [] \<Rightarrow> Inl TypeError
      | seed # _ \<Rightarrow>
          (case requestData fetch (expand_url seed) of
             Inl e \<Rightarrow> Inl e
           | Inr data \<Rightarrow>
               (let (seedEntity, r0) =
                      (if isType seed Complaint then addEntityFromSeed seed new_Result
                       else addEntityFromSeed seed new_Result)
                in Inr (expand_rows seed seedEntity data r0))))"

text \<open>
  The reading the spec gives of the same service: the seed is always wrapped as an
  entity, with no test of its type at that point.
\<close>

definition expand_always_wrap ::
  "(string \<Rightarrow> error + response) \<Rightarrow> ISeedEntityRecord list \<Rightarrow> error + Result" where
  "expand_always_wrap fetch seeds =
     (case seeds of
        [] \<Rightarrow> Inl TypeError
      | seed # _ \<Rightarrow>
          (case requestData fetch (expand_url seed) of
             Inl e \<Rightarrow> Inl e
           | Inr data \<Rightarrow>
               (let (seedEntity, r0) = addEntityFromSeed seed new_Result
                in Inr (expand_rows seed seedEntity data r0))))"

fun addComplaints :: "IComplaintDto list \<Rightarrow> Result \<Rightarrow> Result" where
  "addComplaints [] result = result"
| "addComplaints (datum # data) result = addComplaints data (snd (addComplaint datum result))"

definition findComplaint ::
  "(string \<Rightarrow> error + response) \<Rightarrow> string \<Rightarrow> string \<Rightarrow> error + Result" where
  "findComplaint fetch borough lawCategory =
     (case requestData fetch
             (getUrl [(''$limit'', ''50''),
                      (''$where'', ''boro_nm='' @ [CHR 0x22] @ borough @ [CHR 0x22]
                                   @ '' AND law_cat_cd='' @ [CHR 0x22] @ lawCategory
                                   @ [CHR 0x22])]) of
        Inl e \<Rightarrow> Inl e
      | Inr data \<Rightarrow> Inr (addComplaints data new_Result))"

definition findSimilarComplaint ::
  "(string \<Rightarrow> error + response) \<Rightarrow> ISeedEntityRecord list \<Rightarrow> error + Result" where
  "findSimilarComplaint fetch seeds =
     (case seeds of
        [] \<Rightarrow> Inl TypeError
      | seed # _ \<Rightarrow>
          (let levelOfOffence = tpl_or_empty (getProperty seed Complaint ''Level Of Offence'')
           in case requestData fetch
                     (getUrl [(''$limit'', ''50''),
                              (''$where'', ''law_cat_cd='' @ [CHR 0x22] @ levelOfOffence
                                           @ [CHR 0x22])]) of
                Inl e \<Rightarrow> Inl e
              | Inr data \<Rightarrow> Inr (addComplaints data new_Result)))"

text \<open>The body of the loop of \<open>expandWithConditions\<close>.\<close>

definition expandWithConditions_row ::
  "bool \<Rightarrow> entity_ref \<Rightarrow> IComplaintDto \<Rightarrow> Result \<Rightarrow> Result" where
  "expandWithConditions_row isPerson seedEntity datum result =
     (let r2 =
            (if isPerson
             then (let (suspectEntity, s1) = addSuspect datum result;
                       (victimEntity, s2) = addVictim datum s1;
                       s3 = addLink Suspectof (cmplnt_num datum) suspectEntity seedEntity s2
                   in addLink Victimof (cmplnt_num datum) victimEntity seedEntity s3)
             else result);
          (locationEntity, r3) = addLocation datum r2
      in addLink Locatedat (cmplnt_num datum) seedEntity locationEntity r3)"

fun expandWithConditions_rows ::
  "bool \<Rightarrow> entity_ref \<Rightarrow> IComplaintDto list \<Rightarrow> Result \<Rightarrow> Result" where
  "expandWithConditions_rows isPerson seedEntity [] result = result"
| "expandWithConditions_rows isPerson seedEntity (datum # data) result =
     expandWithConditions_rows isPerson seedEntity data
       (expandWithConditions_row isPerson seedEntity datum result)"

definition expandWithConditions ::
  "(string \<Rightarrow> error + response) \<Rightarrow> bool \<Rightarrow> ISeedEntityRecord list \<Rightarrow> error + Result" where
  "expandWithConditions fetch isPerson seeds =
     (case seeds of
        [] \<Rightarrow> Inl TypeError
      | seed # _ \<Rightarrow>
          (let complaintNumber = tpl_or_empty (getProperty seed Complaint ''Complaint Number'')
           in case requestData fetch
                     (getUrl [(''$limit'', ''50''),
                              (''$where'', ''cmplnt_num='' @ complaintNumber)]) of
                Inl e \<Rightarrow> Inl e
              | Inr data \<Rightarrow>
                  (let (seedEntity, r0) = addEntityFromSeed seed new_Result
                   in Inr (expandWithConditions_rows isPerson seedEntity data r0))))"

section \<open>Auxiliary notions for the statements\<close>

text \<open>
  What the builders of both connectors do to the store, in one step: the entity under
  a key is created when it is not there, the listed properties are set in order, and
  the source reference is set. Likewise for a link, whose source reference is set only
  by the NYPD connector.
\<close>

definition fill_entity ::
  "(string \<times> propval option) list \<Rightarrow> source_reference \<Rightarrow> result_entity \<Rightarrow> result_entity" where
  "fill_entity ps s = (\<lambda>e. (fold (\<lambda>(n, v). set_prop n v) ps e)\<lparr>e_source := Some s\<rparr>)"

definition put_entity ::
  "entity_ref \<Rightarrow> (string \<times> propval option) list \<Rightarrow> source_reference \<Rightarrow> Result \<Rightarrow> Result" where
  "put_entity k ps s r =
     r\<lparr>entities := AList.map_entry k (fill_entity ps s)
                      (get_or_create k \<lparr>e_props = [], e_source = None\<rparr> (entities r))\<rparr>"

definition put_link ::
  "item_type \<times> ResultRecordIdType \<Rightarrow> entity_ref \<Rightarrow> entity_ref \<Rightarrow> source_reference option
     \<Rightarrow> Result \<Rightarrow> Result" where
  "put_link k a b s r =
     r\<lparr>links := AList.map_entry k (\<lambda>l. case s of None \<Rightarrow> l | Some x \<Rightarrow> l\<lparr>l_source := Some x\<rparr>)
                   (get_or_create k \<lparr>l_from = a, l_to = b, l_source = None\<rparr> (links r))\<rparr>"

definition person_properties :: "host \<Rightarrow> IPerson \<Rightarrow> (string \<times> propval option) list" where
  "person_properties h person =
     [(''First Name'', Some (PStr (forename person))),
      (''Last Name'', Some (PStr (surname person))),
      (''Year of Birth'', Some (PStr (dob person))),
      (''Age'', Some (PNum (js_sub (Num (now_year h)) (date_year h (dob person))))),
      (''SSN'', Some (PStr (ssn person))),
      (''SSN Issued Date and Time'',
         Some (PDateTime (issuedDateAndTime person) ''Europe/London'' False))]"

definition person_ref :: "(string \<Rightarrow> ResultRecordIdType) \<Rightarrow> IPerson \<Rightarrow> entity_ref" where
  "person_ref idFactory person = ERef Person (idFactory (person_id person))"

text \<open>
  The key under which the Friendswith link of a person and a friend is stored, and the
  shape of every link of the friend graph: its identifier is the one computed from the
  ids of the two people at its ends.
\<close>

definition friend_key ::
  "(string \<Rightarrow> ResultRecordIdType) \<Rightarrow> IPerson \<Rightarrow> IPerson \<Rightarrow> item_type \<times> ResultRecordIdType" where
  "friend_key idf p f = (Friendswith, friend_link_id idf (person_id p) (person_id f))"

definition friend_link_shape ::
  "(string \<Rightarrow> ResultRecordIdType) \<Rightarrow> (item_type \<times> ResultRecordIdType) \<times> result_link \<Rightarrow> bool" where
  "friend_link_shape idf kl =
     (\<exists>a b. fst kl = (Friendswith, friend_link_id idf a b)
        \<and> l_from (snd kl) = ERef Person (idf a) \<and> l_to (snd kl) = ERef Person (idf b))"

text \<open>The value a result entity holds for a property, if any.\<close>

definition entity_property :: "Result \<Rightarrow> entity_ref \<Rightarrow> string \<Rightarrow> propval option" where
  "entity_property r k n =
     (case map_of (entities r) k of None \<Rightarrow> None | Some e \<Rightarrow> map_of (e_props e) n)"


text \<open>
  Source references of a graph: every entity has exactly the given one; every entity
  other than the wrapper of a seed has exactly the given one; every link has the given
  one (or none, for \<open>None\<close>).
\<close>

definition all_entities_sourced :: "source_reference \<Rightarrow> Result \<Rightarrow> bool" where
  "all_entities_sourced s r = list_all (\<lambda>ke. e_source (snd ke) = Some s) (entities r)"

definition entities_sourced :: "source_reference \<Rightarrow> Result \<Rightarrow> bool" where
  "entities_sourced s r =
     list_all (\<lambda>ke. case fst ke of ERef t i \<Rightarrow> e_source (snd ke) = Some s | SeedRef i \<Rightarrow> True)
       (entities r)"

definition links_sourced :: "source_reference option \<Rightarrow> Result \<Rightarrow> bool" where
  "links_sourced s r = list_all (\<lambda>kl. l_source (snd kl) = s) (links r)"

text \<open>
  A graph without the Age property of its entities: everything else, the identifiers
  and their order, the links and the other properties, is kept.
\<close>

definition strip_age_entity :: "result_entity \<Rightarrow> result_entity" where
  "strip_age_entity e = e\<lparr>e_props := AList.delete ''Age'' (e_props e)\<rparr>"

definition strip_age :: "Result \<Rightarrow> Result" where
  "strip_age r =
     r\<lparr>entities := map (\<lambda>ke. (fst ke, (snd ke)\<lparr>e_props := AList.delete ''Age'' (e_props (snd ke))\<rparr>))
                      (entities r)\<rparr>"

section \<open>Concrete inputs\<close>

text \<open>
  For the concrete hosts below: the year of a valid date written \<open>YYYY-MM-DD\<close>, as
  \<open>new Date(s).getFullYear()\<close> gives it for a day away from the turn of the year,
  whatever the time zone; \<open>NaN\<close> when the string does not start with four digits.
\<close>

definition iso_year :: "string \<Rightarrow> jsnum" where
  "iso_year s = (if length (takeWhile is_digit s) = 4 then Num (digits_value (take 4 s)) else NaN)"

definition host_2022 :: host where
  "host_2022 = \<lparr>now_year = 2022, date_year = iso_year, locale_equal = (=)\<rparr>"

definition host_2023 :: host where
  "host_2023 = \<lparr>now_year = 2023, date_year = iso_year, locale_equal = (=)\<rparr>"

definition alice :: IPerson where
  "alice = \<lparr>person_id = ''p1'', forename = ''Alice'', surname = ''Smith'',
     dob = ''1990-05-17'', ssn = ''123-45-6789'',
     issuedDateAndTime = ''2010-03-04T10:00:00'', friends = [''p2'']\<rparr>"

definition bob :: IPerson where
  "bob = \<lparr>person_id = ''p2'', forename = ''Alice'', surname = ''Jones'',
     dob = ''1991-06-18'', ssn = ''987-65-4321'',
     issuedDateAndTime = ''2011-07-08T11:30:00'', friends = []\<rparr>"

definition seedA :: ISeedEntityRecord where
  "seedA = \<lparr>seedId = ''seed-1'', seed_type = Person,
     seed_props = [(''First Name'', PStr ''Alice'')],
     connectorKeys = [\<lparr>ck_type = Person, ck_id = ''p1''\<rparr>], sourceIdentifiers = []\<rparr>"

definition seedB :: ISeedEntityRecord where
  "seedB = \<lparr>seedId = ''seed-2'', seed_type = Person,
     seed_props = [(''First Name'', PStr ''Al'')],
     connectorKeys = [\<lparr>ck_type = Person, ck_id = ''p1''\<rparr>], sourceIdentifiers = []\<rparr>"

definition seedC :: ISeedEntityRecord where
  "seedC = \<lparr>seedId = ''seed-3'', seed_type = Complaint,
     seed_props = [(''Complaint Number'', PStr ''100'')],
     connectorKeys = [], sourceIdentifiers = []\<rparr>"

definition keyIds :: "ISeedEntityRecord \<Rightarrow> string set" where
  "keyIds seed = extractIdsFromConnectorKeys (connectorKeysByType seed Person)"

definition row_100 :: IComplaintDto where
  "row_100 = \<lparr>cmplnt_num = Some ''100'', crm_atpt_cptd_cd = Some ''COMPLETED'',
     jurisdiction_code = Some ''0'', ky_cd = Some ''341'', law_cat_cd = Some ''MISDEMEANOR'',
     ofns_desc = Some ''PETIT LARCENY'', addr_pct_cd = Some ''1'', boro_nm = Some ''BROOKLYN'',
     latitude = Some ''40.6'', longitude = Some ''-73.9'',
     vic_age_group = Some ''25-44'', vic_race = Some ''WHITE'', vic_sex = Some ''F'',
     susp_age_group = None, susp_race = None, susp_sex = None\<rparr>"

definition row_101 :: IComplaintDto where
  "row_101 = row_100\<lparr>cmplnt_num := Some ''101'', ky_cd := Some ''109''\<rparr>"

text \<open>A \<open>fetch\<close> that answers every URL with the same status, reason phrase and body.\<close>

definition respond ::
  "int \<Rightarrow> string \<Rightarrow> error + IComplaintDto list \<Rightarrow> string \<Rightarrow> error + response" where
  "respond code reason body = (\<lambda>url. Inr \<lparr>status = code, statusText = reason, json = body\<rparr>)"

text \<open>
  A host that differs from \<open>host_2022\<close> in its locale only.
\<close>

definition host_2022_other_locale :: host where
  "host_2022_other_locale = host_2022\<lparr>locale_equal := (\<lambda>a b. False)\<rparr>"

section \<open>Properties\<close>

lemma str_less_asym: "str_less a b \<Longrightarrow> \<not> str_less b a"
  by (induction a b rule: str_less.induct) auto

lemma str_less_total: "\<not> str_less a b \<Longrightarrow> \<not> str_less b a \<Longrightarrow> a = b"
  by (induction a b rule: str_less.induct) (auto simp: linorder_neq_iff)

lemma js_sort_pair: "js_sort [a, b] = (if str_less b a then [b, a] else [a, b])"
  by (simp add: js_sort_def)

text \<open>
  C4: the identifier of the Friendswith link of a pair of person ids does not depend on
  which of the two is the person and which the friend: it is made of the two ids in
  lexicographic order, joined with a hyphen.
\<close>

theorem friend_link_id_symmetric:
  "friend_link_id idFactory a b = friend_link_id idFactory b a
   \<and> friend_link_id idFactory a b
       = idFactory (if str_less b a then b @ ''-'' @ a else a @ ''-'' @ b)"
proof -
  have form: "friend_link_id f x y = f (if str_less y x then y @ ''-'' @ x else x @ ''-'' @ y)"
    for f x y
    by (simp add: friend_link_id_def js_sort_pair)
  have "friend_link_id idFactory a b = friend_link_id idFactory b a"
  proof (cases "str_less a b")
    case True
    then have "\<not> str_less b a" by (rule str_less_asym)
    with True show ?thesis by (simp add: form)
  next
    case False
    show ?thesis
    proof (cases "str_less b a")
      case True
      with False show ?thesis by (simp add: form)
    next
      case nb: False
      from False nb have "a = b" by (rule str_less_total)
      then show ?thesis by simp
    qed
  qed
  with form [of idFactory a b] show ?thesis by simp
qed

text \<open>
  C8: in the expand service of the NYPD connector both branches of the conditional
  expression that wraps the seed do the same, so the service is the one that wraps the
  seed unconditionally: the two return the same graph, or the same error, on every input.
\<close>

theorem expand_conditional_is_dead:
  "expand fetch seeds = expand_always_wrap fetch seeds"
  by (simp add: expand_def expand_always_wrap_def split: list.split sum.split)

subsection \<open>The builders as store updates\<close>

lemma map_fst_map_entry: "map fst (AList.map_entry k f al) = map fst al"
  by (induction al) auto

lemma map_entry_comp: "AList.map_entry k f (AList.map_entry k g al) = AList.map_entry k (f \<circ> g) al"
  by (induction al) auto

lemma map_entry_id: "AList.map_entry k (\<lambda>x. x) al = al"
  by (induction al) auto

lemma setProperties_entities:
  "setProperties k ps r =
     r\<lparr>entities := AList.map_entry k (fold (\<lambda>(n, v). set_prop n v) ps) (entities r)\<rparr>"
proof (induction ps arbitrary: r)
  case Nil
  show ?case by (simp add: map_entry_id[unfolded id_def] id_def)
next
  case (Cons p ps)
  obtain n v where p: "p = (n, v)" by (cases p)
  show ?case
    by (simp add: p Cons.IH setProperty_def map_entry_comp comp_def)
qed

lemma fill_as_put:
  "setSourceReference k s (setProperties k ps (snd (addEntityRef k r))) = put_entity k ps s r"
  by (simp add: setProperties_entities setSourceReference_def addEntityRef_def put_entity_def
      map_entry_comp fill_entity_def comp_def)

lemma addLocation_put:
  "addLocation d r =
     (ERef Location (StrId (''Borough: '' @ tpl (boro_nm d) @ '' Precinct: '' @ tpl (addr_pct_cd d))),
      put_entity (ERef Location (StrId (''Borough: '' @ tpl (boro_nm d) @ '' Precinct: '' @ tpl (addr_pct_cd d))))
        [(''Precinct Code'', Some (PNum (parseInt (addr_pct_cd d)))),
         (''Borough Name'', map_option PStr (boro_nm d)),
         (''Coordinates'', Some (PPoint (parseInt (latitude d)) (parseInt (longitude d))))]
        exampleSourceRef r)"
  unfolding addLocation_def addEntity_def Let_def
  by (simp add: fill_as_put[symmetric] addEntityRef_def)

lemma addPersonToResult_put:
  "addPersonToResult h p r idf =
     (person_ref idf p, put_entity (person_ref idf p) (person_properties h p) personSourceRef r)"
proof -
  have "setSourceReference k personSourceRef (setProperties k (person_properties h p) (snd (addEntityRef k r)))
        = put_entity k (person_properties h p) personSourceRef r" for k
    by (rule fill_as_put)
  then show ?thesis
    unfolding addPersonToResult_def addEntity_def addEntityWithSourceIdentifier_def Let_def
      person_ref_def
    by (cases "idf (person_id p)") (simp_all add: person_properties_def addEntityRef_def)
qed

lemma addComplaint_put:
  "addComplaint d r =
     (ERef Complaint (StrId (''Complaint: '' @ tpl (cmplnt_num d))),
      put_entity (ERef Complaint (StrId (''Complaint: '' @ tpl (cmplnt_num d))))
        [(''Complaint Number'', map_option PStr (cmplnt_num d)),
         (''Crime Status'', map_option PStr (crm_atpt_cptd_cd d)),
         (''Jurisdiction Code'', Some (PNum (parseInt (jurisdiction_code d)))),
         (''Offence Classification Code'', Some (PNum (parseInt (ky_cd d)))),
         (''Level Of Offence'', map_option PStr (law_cat_cd d)),
         (''Offence Description'', map_option PStr (ofns_desc d))]
        exampleSourceRef r)"
  unfolding addComplaint_def addEntity_def Let_def
  by (simp add: fill_as_put[symmetric] addEntityRef_def)

lemma addSuspect_put:
  "addSuspect d r =
     (ERef Person (StrId (''Suspect: '' @ tpl (cmplnt_num d))),
      put_entity (ERef Person (StrId (''Suspect: '' @ tpl (cmplnt_num d))))
        [(''Age Group'', map_option PStr (susp_age_group d)),
         (''Race'', map_option PStr (susp_race d)),
         (''Sex'', map_option PStr (susp_sex d))]
        exampleSourceRef r)"
  unfolding addSuspect_def addEntity_def Let_def
  by (simp add: fill_as_put[symmetric] addEntityRef_def)

lemma addVictim_put:
  "addVictim d r =
     (ERef Person (StrId (''Victim: '' @ tpl (cmplnt_num d))),
      put_entity (ERef Person (StrId (''Victim: '' @ tpl (cmplnt_num d))))
        [(''Age Group'', map_option PStr (vic_age_group d)),
         (''Race'', map_option PStr (vic_race d)),
         (''Sex'', map_option PStr (vic_sex d))]
        exampleSourceRef r)"
  unfolding addVictim_def addEntity_def Let_def
  by (simp add: fill_as_put[symmetric] addEntityRef_def)

lemma addLink_put:
  "addLink t i a b r = put_link (t, StrId (tpl i)) a b (Some exampleSourceRef) r"
  by (simp add: addLink_def result_addLink_def addLinkKey_def link_setSourceReference_def
      put_link_def)

lemma linkFriend_put:
  "linkFriend h idf p f r =
     put_link (Friendswith, friend_link_id idf (person_id p) (person_id f))
       (person_ref idf p) (person_ref idf f) None
       (put_entity (person_ref idf f) (person_properties h f) personSourceRef
          (put_entity (person_ref idf p) (person_properties h p) personSourceRef r))"
  unfolding linkFriend_def addPersonToResult_put Let_def
  by (cases "friend_link_id idf (person_id p) (person_id f)")
     (simp_all add: result_addLink_def addLinkWithSourceIdentifier_def addLinkKey_def
        put_link_def map_entry_id)

lemma put_entity_links: "links (put_entity k ps s r) = links r"
  by (simp add: put_entity_def)

lemma put_link_entities: "entities (put_link k a b s r) = entities r"
  by (simp add: put_link_def)

lemma get_or_create_keys: "fst ` set (get_or_create k v al) = insert k (fst ` set al)"
  by (auto simp: get_or_create_def)

lemma get_or_create_distinct:
  "distinct (map fst al) \<Longrightarrow> distinct (map fst (get_or_create k v al))"
  by (auto simp: get_or_create_def)

lemma put_entity_keys:
  "fst ` set (entities (put_entity k ps s r)) = insert k (fst ` set (entities r))"
  by (simp add: put_entity_def AList.dom_map_entry get_or_create_keys)


lemma put_link_keys:
  "fst ` set (links (put_link k a b s r)) = insert k (fst ` set (links r))"
  by (simp add: put_link_def AList.dom_map_entry get_or_create_keys)

lemma put_link_distinct:
  "distinct (map fst (links r)) \<Longrightarrow> distinct (map fst (links (put_link k a b s r)))"
  by (simp add: put_link_def map_fst_map_entry get_or_create_distinct)

subsection \<open>The friend graph\<close>

lemma forFriends_link_keys:
  "fst ` set (links (forFriends h idf p fs r)) = fst ` set (links r) \<union> friend_key idf p ` set fs"
  by (induction fs arbitrary: r)
     (auto simp: linkFriend_put put_link_keys put_entity_links friend_key_def)

lemma forPeople_link_keys:
  "fst ` set (links (forPeople h ds idf ps r)) =
     fst ` set (links r) \<union>
     {friend_key idf p f | p f. p \<in> set ps \<and> f \<in> set ds \<and> person_id f \<in> set (friends p)}"
  by (induction ps arbitrary: r) (auto simp: forFriends_link_keys lookupPeople_def)

lemma forSeeds_link_keys:
  "fst ` set (links (forSeeds h ds ex idf ss r)) =
     fst ` set (links r) \<union>
     {friend_key idf p f | s p f. s \<in> set ss \<and> p \<in> set ds \<and> person_id p \<in> ex s
         \<and> f \<in> set ds \<and> person_id f \<in> set (friends p)}"
  by (induction ss arbitrary: r) (auto simp: forPeople_link_keys lookupPeople_def)

lemma forFriends_link_distinct:
  "distinct (map fst (links r)) \<Longrightarrow> distinct (map fst (links (forFriends h idf p fs r)))"
  by (induction fs arbitrary: r)
     (simp_all add: linkFriend_put put_link_distinct put_entity_links)

lemma forPeople_link_distinct:
  "distinct (map fst (links r)) \<Longrightarrow> distinct (map fst (links (forPeople h ds idf ps r)))"
  by (induction ps arbitrary: r) (simp_all add: forFriends_link_distinct)

lemma forSeeds_link_distinct:
  "distinct (map fst (links r)) \<Longrightarrow> distinct (map fst (links (forSeeds h ds ex idf ss r)))"
  by (induction ss arbitrary: r) (simp_all add: forPeople_link_distinct)

lemma put_link_None_set:
  "set (links (put_link k a b None r)) \<subseteq> insert (k, \<lparr>l_from = a, l_to = b, l_source = None\<rparr>) (set (links r))"
  by (auto simp: put_link_def map_entry_id get_or_create_def)

lemma linkFriend_shape:
  assumes "\<forall>kl \<in> set (links r). friend_link_shape idf kl"
  shows "\<forall>kl \<in> set (links (linkFriend h idf p f r)). friend_link_shape idf kl"
proof
  fix kl assume "kl \<in> set (links (linkFriend h idf p f r))"
  then have "kl = ((Friendswith, friend_link_id idf (person_id p) (person_id f)),
                   \<lparr>l_from = person_ref idf p, l_to = person_ref idf f, l_source = None\<rparr>)
             \<or> kl \<in> set (links r)"
    using put_link_None_set unfolding linkFriend_put
    by (fastforce simp: put_entity_links)
  then show "friend_link_shape idf kl"
  proof
    assume "kl = ((Friendswith, friend_link_id idf (person_id p) (person_id f)),
                   \<lparr>l_from = person_ref idf p, l_to = person_ref idf f, l_source = None\<rparr>)"
    then show ?thesis by (auto simp: friend_link_shape_def person_ref_def)
  next
    assume "kl \<in> set (links r)" with assms show ?thesis by blast
  qed
qed

lemma forFriends_shape:
  "\<forall>kl \<in> set (links r). friend_link_shape idf kl \<Longrightarrow>
   \<forall>kl \<in> set (links (forFriends h idf p fs r)). friend_link_shape idf kl"
proof (induction fs arbitrary: r)
  case Nil then show ?case by simp
next
  case (Cons f fs)
  from linkFriend_shape[OF Cons.prems] have "\<forall>kl \<in> set (links (linkFriend h idf p f r)). friend_link_shape idf kl" .
  from Cons.IH[OF this] show ?case by simp
qed

lemma forPeople_shape:
  "\<forall>kl \<in> set (links r). friend_link_shape idf kl \<Longrightarrow>
   \<forall>kl \<in> set (links (forPeople h ds idf ps r)). friend_link_shape idf kl"
proof (induction ps arbitrary: r)
  case Nil then show ?case by simp
next
  case (Cons p ps)
  show ?case using Cons.IH[OF forFriends_shape[OF Cons.prems]] by simp
qed

lemma forSeeds_shape:
  "\<forall>kl \<in> set (links r). friend_link_shape idf kl \<Longrightarrow>
   \<forall>kl \<in> set (links (forSeeds h ds ex idf ss r)). friend_link_shape idf kl"
proof (induction ss arbitrary: r)
  case Nil then show ?case by simp
next
  case (Cons s ss)
  show ?case using Cons.IH[OF forPeople_shape[OF Cons.prems]] by simp
qed

lemma hyphen_split: "x @ ''-'' @ y = ''p1-p2'' \<Longrightarrow> x = ''p1'' \<and> y = ''p2''"
  by (auto simp: append_eq_Cons_conv)

lemma link_id_p1_p2:
  "join ''-'' (js_sort [a, b]) = ''p1-p2'' \<longleftrightarrow> (a = ''p1'' \<and> b = ''p2'') \<or> (a = ''p2'' \<and> b = ''p1'')"
proof
  assume h: "join ''-'' (js_sort [a, b]) = ''p1-p2''"
  show "(a = ''p1'' \<and> b = ''p2'') \<or> (a = ''p2'' \<and> b = ''p1'')"
  proof (cases "str_less b a")
    case True
    with h have "b @ ''-'' @ a = ''p1-p2''" by (simp add: js_sort_pair)
    then show ?thesis using hyphen_split by blast
  next
    case False
    with h have "a @ ''-'' @ b = ''p1-p2''" by (simp add: js_sort_pair)
    then show ?thesis using hyphen_split by blast
  qed
next
  assume "(a = ''p1'' \<and> b = ''p2'') \<or> (a = ''p2'' \<and> b = ''p1'')"
  then show "join ''-'' (js_sort [a, b]) = ''p1-p2''"
    by (auto simp: js_sort_pair)
qed

lemma filter_eq_distinct: "distinct xs \<Longrightarrow> x \<in> set xs \<Longrightarrow> filter (\<lambda>y. y = x) xs = [x]"
  by (induction xs) (auto simp: filter_empty_conv)

text \<open>
  C1: when two distinct seeds of the list both resolve to the person id p1, whose
  record names p2 as a friend (both people being in the data set), the graph returned
  by \<open>getFriendsLinkedToSeeds\<close> holds exactly one Friendswith link with the identifier
  \<open>p1-p2\<close>, and the links that join the entities of p1 and p2 are exactly that one.
\<close>

theorem friends_of_two_seeds_one_link:
  assumes s1: "s1 \<in> set seeds" and s2: "s2 \<in> set seeds" and ne: "seedId s1 \<noteq> seedId s2"
    and r1: "''p1'' \<in> extractIdsFromSeed s1" and r2: "''p1'' \<in> extractIdsFromSeed s2"
    and p: "person \<in> set dataset" "person_id person = ''p1''" "''p2'' \<in> set (friends person)"
    and f: "friend \<in> set dataset" "person_id friend = ''p2''"
  shows "length (filter (\<lambda>kl. fst kl = (Friendswith, StrId ''p1-p2''))
                   (links (getFriendsLinkedToSeeds h dataset seeds extractIdsFromSeed StrId))) = 1
       \<and> filter (\<lambda>kl. {l_from (snd kl), l_to (snd kl)}
                        = {ERef Person (StrId ''p1''), ERef Person (StrId ''p2'')})
           (links (getFriendsLinkedToSeeds h dataset seeds extractIdsFromSeed StrId))
         = filter (\<lambda>kl. fst kl = (Friendswith, StrId ''p1-p2''))
             (links (getFriendsLinkedToSeeds h dataset seeds extractIdsFromSeed StrId))"
proof -
  let ?L = "links (getFriendsLinkedToSeeds h dataset seeds extractIdsFromSeed StrId)"
  let ?K = "(Friendswith, StrId ''p1-p2'')"
  have key: "friend_key StrId person friend = ?K"
    using p f by (simp add: friend_key_def friend_link_id_def js_sort_pair)
  have "friend_key StrId person friend \<in> fst ` set ?L"
  proof -
    have "\<exists>s p' f'. friend_key StrId person friend = friend_key StrId p' f' \<and> s \<in> set seeds
            \<and> p' \<in> set dataset \<and> person_id p' \<in> extractIdsFromSeed s
            \<and> f' \<in> set dataset \<and> person_id f' \<in> set (friends p')"
      using s1 r1 p f by (intro exI[of _ s1] exI[of _ person] exI[of _ friend]) simp
    then show ?thesis
      unfolding getFriendsLinkedToSeeds_def forSeeds_link_keys by simp
  qed
  then have mem: "?K \<in> set (map fst ?L)" by (simp add: key)
  have dist: "distinct (map fst ?L)"
    unfolding getFriendsLinkedToSeeds_def
    by (rule forSeeds_link_distinct) (simp add: new_Result_def)
  have "filter (\<lambda>y. y = ?K) (map fst ?L) = [?K]"
    using dist mem by (rule filter_eq_distinct)
  then have "map fst (filter (\<lambda>kl. fst kl = ?K) ?L) = [?K]"
    by (simp add: filter_map comp_def)
  then have one: "length (filter (\<lambda>kl. fst kl = ?K) ?L) = 1"
    by (metis length_map length_Cons list.size(3) One_nat_def)
  have shape: "\<forall>kl \<in> set ?L. friend_link_shape StrId kl"
    unfolding getFriendsLinkedToSeeds_def
    by (rule forSeeds_shape) (simp add: new_Result_def)
  have "({l_from (snd kl), l_to (snd kl)} = {ERef Person (StrId ''p1''), ERef Person (StrId ''p2'')})
        = (fst kl = ?K)" if "kl \<in> set ?L" for kl
  proof -
    from shape that obtain a b where ab: "fst kl = (Friendswith, friend_link_id StrId a b)"
      "l_from (snd kl) = ERef Person (StrId a)" "l_to (snd kl) = ERef Person (StrId b)"
      unfolding friend_link_shape_def by blast
    show ?thesis
      by (simp add: ab friend_link_id_def link_id_p1_p2 doubleton_eq_iff)
  qed
  then have "filter (\<lambda>kl. {l_from (snd kl), l_to (snd kl)}
                        = {ERef Person (StrId ''p1''), ERef Person (StrId ''p2'')}) ?L
             = filter (\<lambda>kl. fst kl = ?K) ?L"
    by (intro filter_cong) auto
  with one show ?thesis by simp
qed

theorem friends_of_two_seeds_one_link_witness:
  "seedA \<in> set [seedA, seedB] \<and> seedB \<in> set [seedA, seedB] \<and> seedId seedA \<noteq> seedId seedB
   \<and> ''p1'' \<in> keyIds seedA \<and> ''p1'' \<in> keyIds seedB
   \<and> alice \<in> set [alice, bob] \<and> person_id alice = ''p1'' \<and> ''p2'' \<in> set (friends alice)
   \<and> bob \<in> set [alice, bob] \<and> person_id bob = ''p2''
   \<and> length (filter (\<lambda>kl. fst kl = (Friendswith, StrId ''p1-p2''))
         (links (getFriendsLinkedToSeeds host_2022 [alice, bob] [seedA, seedB] keyIds StrId))) = 1"
proof -
  have h1: "seedA \<in> set [seedA, seedB]" and h2: "seedB \<in> set [seedA, seedB]" by simp_all
  have h3: "seedId seedA \<noteq> seedId seedB" by (simp add: seedA_def seedB_def)
  have h4: "''p1'' \<in> keyIds seedA" and h5: "''p1'' \<in> keyIds seedB"
    by (simp_all add: keyIds_def seedA_def seedB_def extractIdsFromConnectorKeys_def
        connectorKeysByType_def)
  have h6: "alice \<in> set [alice, bob]" and h9: "bob \<in> set [alice, bob]" by simp_all
  have h7: "person_id alice = ''p1''" and h8: "''p2'' \<in> set (friends alice)"
    by (simp_all add: alice_def)
  have h10: "person_id bob = ''p2''" by (simp add: bob_def)
  from friends_of_two_seeds_one_link [OF h1 h2 h3 h4 h5 h6 h7 h8 h9 h10, of host_2022]
  have "length (filter (\<lambda>kl. fst kl = (Friendswith, StrId ''p1-p2''))
         (links (getFriendsLinkedToSeeds host_2022 [alice, bob] [seedA, seedB] keyIds StrId))) = 1"
    by (rule conjunct1)
  with h1 h2 h3 h4 h5 h6 h7 h8 h9 h10 show ?thesis by (intro conjI)
qed

subsection \<open>The seeded search\<close>

lemma addPeople_keys:
  "fst ` set (entities (addPeople h ps r idf)) = fst ` set (entities r) \<union> person_ref idf ` set ps"
  by (induction ps arbitrary: r) (auto simp: addPersonToResult_put put_entity_keys)

text \<open>
  C10: the seeded search "find like this" returns a graph, and no entity of that graph
  has the id of a Person connector key of the seed, whatever the data set, the names
  and the year of birth.
\<close>

theorem seeded_search_excludes_charted:
  assumes "k \<in> set (connectorKeys seed)" and "ck_type k = Person"
  shows "\<exists>g. exampleSeededSearch1 h dataset (seed # rest) useYearOfBirth = Inr g
            \<and> (\<forall>t. ERef t (StrId (ck_id k)) \<notin> fst ` set (entities g))"
proof -
  from assms have "ck_id k \<in> extractIdsFromConnectorKeys (connectorKeysByType seed Person)"
    by (auto simp: extractIdsFromConnectorKeys_def connectorKeysByType_def)
  then show ?thesis
    by (auto simp: exampleSeededSearch1_def Let_def addPeople_keys new_Result_def
        lookupPeople_def person_ref_def)
qed

theorem seeded_search_excludes_charted_witness:
  "\<lparr>ck_type = Person, ck_id = ''p1''\<rparr> \<in> set (connectorKeys seedA)
   \<and> (\<exists>g. exampleSeededSearch1 host_2022 [alice, bob] [seedA] None = Inr g
          \<and> (\<forall>t. ERef t (StrId ''p1'') \<notin> fst ` set (entities g)))"
proof -
  have h1: "\<lparr>ck_type = Person, ck_id = ''p1''\<rparr> \<in> set (connectorKeys seedA)"
    by (simp add: seedA_def)
  have h2: "ck_type \<lparr>ck_type = Person, ck_id = ''p1''\<rparr> = Person" by simp
  from seeded_search_excludes_charted [OF h1 h2, of host_2022 "[alice, bob]" "[]" None] h1
  show ?thesis by simp
qed

subsection \<open>The NYPD services\<close>

text \<open>
  C2: given the response of the fetch, \<open>requestData\<close> returns a record sequence exactly
  when the status is 200, and it is then the parsed body; with any other status it
  throws an error that carries the status text, and \<open>getAll\<close> fails with that error
  instead of returning a graph.
\<close>

theorem requestData_status:
  assumes "fetch url = Inr resp"
  shows "(requestData fetch url = Inr recs \<longleftrightarrow> status resp = 200 \<and> json resp = Inr recs)
       \<and> (status resp \<noteq> 200 \<longrightarrow>
            requestData fetch url = Inl (Error (statusText resp))
            \<and> (url = getUrl [(''$limit'', ''100'')] \<longrightarrow> getAll fetch = Inl (Error (statusText resp))))"
  using assms by (auto simp: requestData_def getAll_def)

theorem requestData_status_witness:
  "respond 404 ''Not Found'' (Inl (FetchError ''body is not JSON'')) (getUrl [(''$limit'', ''100'')])
     = Inr \<lparr>status = 404, statusText = ''Not Found'', json = Inl (FetchError ''body is not JSON'')\<rparr>
   \<and> requestData (respond 404 ''Not Found'' (Inl (FetchError ''body is not JSON'')))
        (getUrl [(''$limit'', ''100'')]) = Inl (Error ''Not Found'')
   \<and> getAll (respond 404 ''Not Found'' (Inl (FetchError ''body is not JSON'')))
        = Inl (Error ''Not Found'')
   \<and> requestData (respond 200 ''OK'' (Inr [row_100])) (getUrl [(''$limit'', ''100'')])
        = Inr [row_100]"
proof -
  let ?u = "getUrl [(''$limit'', ''100'')]"
  let ?f = "respond 404 ''Not Found'' (Inl (FetchError ''body is not JSON''))"
  let ?g = "respond 200 ''OK'' (Inr [row_100])"
  have h: "?f ?u = Inr \<lparr>status = 404, statusText = ''Not Found'',
                         json = Inl (FetchError ''body is not JSON'')\<rparr>"
    by (simp add: respond_def)
  have k: "?g ?u = Inr \<lparr>status = 200, statusText = ''OK'', json = Inr [row_100]\<rparr>"
    by (simp add: respond_def)
  from requestData_status [where fetch = ?f and url = ?u and recs = "[]", OF h]
    requestData_status [where fetch = ?g and url = ?u and recs = "[row_100]", OF k] h
  show ?thesis by simp
qed










subsection \<open>Source references\<close>

lemma map_entry_all:
  "list_all Q al \<Longrightarrow> (\<And>e. Q (k, e) \<Longrightarrow> Q (k, f e)) \<Longrightarrow> list_all Q (AList.map_entry k f al)"
  by (induction al) auto

lemma map_entry_append_new:
  "k \<notin> fst ` set al \<Longrightarrow> AList.map_entry k f (al @ [(k, v)]) = al @ [(k, f v)]"
  by (induction al) auto

lemma map_entry_get_or_create_all:
  assumes "list_all Q al" and "\<And>e. Q (k, e) \<Longrightarrow> Q (k, f e)" and "Q (k, f v)"
  shows "list_all Q (AList.map_entry k f (get_or_create k v al))"
proof (cases "k \<in> fst ` set al")
  case True
  with assms(1,2) show ?thesis by (simp add: get_or_create_def map_entry_all)
next
  case False
  with assms(1,3) show ?thesis by (simp add: get_or_create_def map_entry_append_new)
qed

lemma put_entity_all_sourced:
  "all_entities_sourced s r \<Longrightarrow> all_entities_sourced s (put_entity k ps s r)"
  unfolding put_entity_def all_entities_sourced_def
  by (simp, rule map_entry_get_or_create_all) (simp_all add: fill_entity_def)

lemma put_entity_sourced:
  "entities_sourced s r \<Longrightarrow> entities_sourced s (put_entity (ERef t i) ps s r)"
  unfolding put_entity_def entities_sourced_def
  by (simp, rule map_entry_get_or_create_all) (simp_all add: fill_entity_def)

lemma put_link_sourced:
  "links_sourced s r \<Longrightarrow> links_sourced s (put_link k a b s r)"
  unfolding put_link_def links_sourced_def
  by (simp, rule map_entry_get_or_create_all) (auto split: option.splits)

lemma put_link_keeps_entities_sourced:
  "entities_sourced s (put_link k a b x r) = entities_sourced s r"
  "all_entities_sourced s (put_link k a b x r) = all_entities_sourced s r"
  by (simp_all add: entities_sourced_def all_entities_sourced_def put_link_entities)

lemma put_entity_keeps_links_sourced:
  "links_sourced x (put_entity k ps s r) = links_sourced x r"
  by (simp add: links_sourced_def put_entity_links)

lemma addEntityFromSeed_sourced:
  "entities_sourced s (snd (addEntityFromSeed seed new_Result))
   \<and> links_sourced x (snd (addEntityFromSeed seed new_Result))
   \<and> fst (addEntityFromSeed seed new_Result) = SeedRef (seedId seed)"
  by (simp add: addEntityFromSeed_def addEntityRef_def new_Result_def entities_sourced_def
      links_sourced_def get_or_create_def)

lemma new_Result_sourced:
  "all_entities_sourced s new_Result" "links_sourced x new_Result"
  by (simp_all add: all_entities_sourced_def links_sourced_def new_Result_def)

lemma addPeople_sourced:
  "all_entities_sourced personSourceRef r \<Longrightarrow>
   all_entities_sourced personSourceRef (addPeople h ps r idf)"
  by (induction ps arbitrary: r) (simp_all add: addPersonToResult_put put_entity_all_sourced)

lemma linkFriend_sources:
  "all_entities_sourced personSourceRef r \<and> links_sourced None r \<Longrightarrow>
   all_entities_sourced personSourceRef (linkFriend h idf p f r)
   \<and> links_sourced None (linkFriend h idf p f r)"
  by (simp add: linkFriend_put put_link_keeps_entities_sourced put_entity_keeps_links_sourced
      put_entity_all_sourced put_link_sourced)

lemma forFriends_sources:
  "all_entities_sourced personSourceRef r \<and> links_sourced None r \<Longrightarrow>
   all_entities_sourced personSourceRef (forFriends h idf p fs r)
   \<and> links_sourced None (forFriends h idf p fs r)"
proof (induction fs arbitrary: r)
  case Nil then show ?case by simp
next
  case (Cons f fs)
  from Cons.IH [OF linkFriend_sources [OF Cons.prems]] show ?case by simp
qed

lemma forPeople_sources:
  "all_entities_sourced personSourceRef r \<and> links_sourced None r \<Longrightarrow>
   all_entities_sourced personSourceRef (forPeople h ds idf ps r)
   \<and> links_sourced None (forPeople h ds idf ps r)"
proof (induction ps arbitrary: r)
  case Nil then show ?case by simp
next
  case (Cons p ps)
  from Cons.IH [OF forFriends_sources [OF Cons.prems]] show ?case by simp
qed

lemma forSeeds_sources:
  "all_entities_sourced personSourceRef r \<and> links_sourced None r \<Longrightarrow>
   all_entities_sourced personSourceRef (forSeeds h ds ex idf ss r)
   \<and> links_sourced None (forSeeds h ds ex idf ss r)"
proof (induction ss arbitrary: r)
  case Nil then show ?case by simp
next
  case (Cons s ss)
  from Cons.IH [OF forPeople_sources [OF Cons.prems]] show ?case by simp
qed

lemma getAll_row_sources:
  "all_entities_sourced exampleSourceRef r \<and> links_sourced (Some exampleSourceRef) r \<Longrightarrow>
   all_entities_sourced exampleSourceRef (getAll_row d r)
   \<and> links_sourced (Some exampleSourceRef) (getAll_row d r)"
  by (simp add: getAll_row_def addLocation_put addComplaint_put addSuspect_put addVictim_put
      addLink_put put_link_keeps_entities_sourced put_entity_keeps_links_sourced
      put_entity_all_sourced put_link_sourced)

lemma getAll_rows_sources:
  "all_entities_sourced exampleSourceRef r \<and> links_sourced (Some exampleSourceRef) r \<Longrightarrow>
   all_entities_sourced exampleSourceRef (getAll_rows ds r)
   \<and> links_sourced (Some exampleSourceRef) (getAll_rows ds r)"
proof (induction ds arbitrary: r)
  case Nil then show ?case by simp
next
  case (Cons d ds)
  from Cons.IH [OF getAll_row_sources [OF Cons.prems]] show ?case by simp
qed

lemma addComplaints_sources:
  "all_entities_sourced exampleSourceRef r \<Longrightarrow>
   all_entities_sourced exampleSourceRef (addComplaints ds r)"
  by (induction ds arbitrary: r) (simp_all add: addComplaint_put put_entity_all_sourced)

lemma expand_row_sources:
  "entities_sourced exampleSourceRef r \<and> links_sourced (Some exampleSourceRef) r \<Longrightarrow>
   entities_sourced exampleSourceRef (expand_row seed se d r)
   \<and> links_sourced (Some exampleSourceRef) (expand_row seed se d r)"
  by (simp add: expand_row_def addLocation_put addComplaint_put addSuspect_put addVictim_put
      addLink_put put_link_keeps_entities_sourced put_entity_keeps_links_sourced
      put_entity_sourced put_link_sourced)

lemma expand_rows_sources:
  "entities_sourced exampleSourceRef r \<and> links_sourced (Some exampleSourceRef) r \<Longrightarrow>
   entities_sourced exampleSourceRef (expand_rows seed se ds r)
   \<and> links_sourced (Some exampleSourceRef) (expand_rows seed se ds r)"
proof (induction ds arbitrary: r)
  case Nil then show ?case by simp
next
  case (Cons d ds)
  from Cons.IH [OF expand_row_sources [OF Cons.prems]] show ?case by simp
qed

lemma expandWithConditions_row_sources:
  "entities_sourced exampleSourceRef r \<and> links_sourced (Some exampleSourceRef) r \<Longrightarrow>
   entities_sourced exampleSourceRef (expandWithConditions_row b se d r)
   \<and> links_sourced (Some exampleSourceRef) (expandWithConditions_row b se d r)"
  by (simp add: expandWithConditions_row_def addLocation_put addSuspect_put addVictim_put
      addLink_put put_link_keeps_entities_sourced put_entity_keeps_links_sourced
      put_entity_sourced put_link_sourced)

lemma expandWithConditions_rows_sources:
  "entities_sourced exampleSourceRef r \<and> links_sourced (Some exampleSourceRef) r \<Longrightarrow>
   entities_sourced exampleSourceRef (expandWithConditions_rows b se ds r)
   \<and> links_sourced (Some exampleSourceRef) (expandWithConditions_rows b se ds r)"
proof (induction ds arbitrary: r)
  case Nil then show ?case by simp
next
  case (Cons d ds)
  from Cons.IH [OF expandWithConditions_row_sources [OF Cons.prems]] show ?case by simp
qed

text \<open>
  C7, as the code has it: every entity built from a person of the data set or from a
  row of the complaint data set has exactly one source reference in the returned graph,
  and so has every link built from a row, in every service of the two connectors; the
  entity that wraps a seed is not built from fetched data and has none. The Friendswith
  links of \<open>getFriendsLinkedToSeeds\<close> have no source reference.
\<close>

theorem provenance_of_fetched_records:
  "all_entities_sourced personSourceRef (findPeople h dataset term idFactory)
   \<and> all_entities_sourced personSourceRef
        (getFriendsLinkedToSeeds h dataset seeds extractIdsFromSeed idFactory)
   \<and> links_sourced None (getFriendsLinkedToSeeds h dataset seeds extractIdsFromSeed idFactory)
   \<and> (exampleSeededSearch1 h dataset seeds useYearOfBirth = Inr g1 \<longrightarrow>
        all_entities_sourced personSourceRef g1)
   \<and> (asyncExampleSearch h dataset seconds shouldFail = Inr g2 \<longrightarrow>
        all_entities_sourced personSourceRef g2)
   \<and> (getAll fetch = Inr g3 \<longrightarrow>
        all_entities_sourced exampleSourceRef g3 \<and> links_sourced (Some exampleSourceRef) g3)
   \<and> (findComplaint fetch borough lawCategory = Inr g4 \<longrightarrow>
        all_entities_sourced exampleSourceRef g4)
   \<and> (findSimilarComplaint fetch seeds' = Inr g5 \<longrightarrow>
        all_entities_sourced exampleSourceRef g5)
   \<and> (expand fetch seeds' = Inr g6 \<longrightarrow>
        entities_sourced exampleSourceRef g6 \<and> links_sourced (Some exampleSourceRef) g6)
   \<and> (expandWithConditions fetch isPerson seeds' = Inr g7 \<longrightarrow>
        entities_sourced exampleSourceRef g7 \<and> links_sourced (Some exampleSourceRef) g7)"
proof -
  have a: "all_entities_sourced personSourceRef (findPeople h dataset term idFactory)"
    unfolding findPeople_def Let_def
    by (rule addPeople_sourced) (rule new_Result_sourced)
  have b: "all_entities_sourced personSourceRef
             (getFriendsLinkedToSeeds h dataset seeds extractIdsFromSeed idFactory)
           \<and> links_sourced None
               (getFriendsLinkedToSeeds h dataset seeds extractIdsFromSeed idFactory)"
    unfolding getFriendsLinkedToSeeds_def
    by (rule forSeeds_sources) (simp add: new_Result_sourced)
  have c: "exampleSeededSearch1 h dataset seeds useYearOfBirth = Inr g1 \<longrightarrow>
        all_entities_sourced personSourceRef g1"
    by (auto simp: exampleSeededSearch1_def Let_def addPeople_sourced new_Result_sourced
        split: list.splits)
  have d: "asyncExampleSearch h dataset seconds shouldFail = Inr g2 \<longrightarrow>
        all_entities_sourced personSourceRef g2"
    by (auto simp: asyncExampleSearch_def asyncLookupPeople_def Let_def addPeople_sourced
        new_Result_sourced split: if_splits)
  have e: "getAll fetch = Inr g3 \<longrightarrow>
        all_entities_sourced exampleSourceRef g3 \<and> links_sourced (Some exampleSourceRef) g3"
    using getAll_rows_sources [of new_Result]
    by (auto simp: getAll_def new_Result_sourced split: sum.splits)
  have f: "findComplaint fetch borough lawCategory = Inr g4 \<longrightarrow>
        all_entities_sourced exampleSourceRef g4"
    by (auto simp: findComplaint_def addComplaints_sources new_Result_sourced split: sum.splits)
  have g: "findSimilarComplaint fetch seeds' = Inr g5 \<longrightarrow>
        all_entities_sourced exampleSourceRef g5"
    by (auto simp: findSimilarComplaint_def Let_def addComplaints_sources new_Result_sourced
        split: sum.splits list.splits)
  have start: "entities_sourced exampleSourceRef (snd (addEntityFromSeed seed new_Result))
      \<and> links_sourced (Some exampleSourceRef) (snd (addEntityFromSeed seed new_Result))" for seed
    using addEntityFromSeed_sourced [of exampleSourceRef seed "Some exampleSourceRef"] by simp
  have i: "expand fetch seeds' = Inr g6 \<longrightarrow>
        entities_sourced exampleSourceRef g6 \<and> links_sourced (Some exampleSourceRef) g6"
    using expand_rows_sources [OF start]
    by (auto simp: expand_def Let_def split_beta split: sum.splits list.splits)
  have j: "expandWithConditions fetch isPerson seeds' = Inr g7 \<longrightarrow>
        entities_sourced exampleSourceRef g7 \<and> links_sourced (Some exampleSourceRef) g7"
    using expandWithConditions_rows_sources [OF start]
    by (auto simp: expandWithConditions_def Let_def split_beta split: sum.splits list.splits)
  from b have b1: "all_entities_sourced personSourceRef
             (getFriendsLinkedToSeeds h dataset seeds extractIdsFromSeed idFactory)"
    and b2: "links_sourced None
               (getFriendsLinkedToSeeds h dataset seeds extractIdsFromSeed idFactory)"
    by simp_all
  from a b1 b2 c d e f g i j show ?thesis by (intro conjI)
qed

theorem provenance_of_fetched_records_witness:
  "exampleSeededSearch1 host_2022 [alice, bob] [seedA] None
     = Inr (addPeople host_2022 [bob] new_Result StrId)
   \<and> all_entities_sourced personSourceRef (addPeople host_2022 [bob] new_Result StrId)
   \<and> asyncExampleSearch host_2022 [alice, bob] None None
     = Inr (addPeople host_2022 [alice, bob] new_Result StrId)
   \<and> all_entities_sourced personSourceRef (addPeople host_2022 [alice, bob] new_Result StrId)
   \<and> getAll (respond 200 ''OK'' (Inr [row_100, row_101]))
     = Inr (getAll_rows [row_100, row_101] new_Result)
   \<and> all_entities_sourced exampleSourceRef (getAll_rows [row_100, row_101] new_Result)
   \<and> links_sourced (Some exampleSourceRef) (getAll_rows [row_100, row_101] new_Result)
   \<and> findComplaint (respond 200 ''OK'' (Inr [row_100, row_101])) ''BROOKLYN'' ''MISDEMEANOR''
     = Inr (addComplaints [row_100, row_101] new_Result)
   \<and> all_entities_sourced exampleSourceRef (addComplaints [row_100, row_101] new_Result)
   \<and> findSimilarComplaint (respond 200 ''OK'' (Inr [row_100, row_101])) [seedC]
     = Inr (addComplaints [row_100, row_101] new_Result)
   \<and> expand (respond 200 ''OK'' (Inr [row_100, row_101])) [seedC]
     = Inr (expand_rows seedC (SeedRef ''seed-3'') [row_100, row_101]
              (snd (addEntityFromSeed seedC new_Result)))
   \<and> entities_sourced exampleSourceRef
        (expand_rows seedC (SeedRef ''seed-3'') [row_100, row_101]
           (snd (addEntityFromSeed seedC new_Result)))
   \<and> links_sourced (Some exampleSourceRef)
        (expand_rows seedC (SeedRef ''seed-3'') [row_100, row_101]
           (snd (addEntityFromSeed seedC new_Result)))
   \<and> expandWithConditions (respond 200 ''OK'' (Inr [row_100, row_101])) True [seedC]
     = Inr (expandWithConditions_rows True (SeedRef ''seed-3'') [row_100, row_101]
              (snd (addEntityFromSeed seedC new_Result)))
   \<and> entities_sourced exampleSourceRef
        (expandWithConditions_rows True (SeedRef ''seed-3'') [row_100, row_101]
           (snd (addEntityFromSeed seedC new_Result)))
   \<and> links_sourced (Some exampleSourceRef)
        (expandWithConditions_rows True (SeedRef ''seed-3'') [row_100, row_101]
           (snd (addEntityFromSeed seedC new_Result)))"
proof -
  let ?F = "respond 200 ''OK'' (Inr [row_100, row_101])"
  let ?E = "expand_rows seedC (SeedRef ''seed-3'') [row_100, row_101]
              (snd (addEntityFromSeed seedC new_Result))"
  let ?W = "expandWithConditions_rows True (SeedRef ''seed-3'') [row_100, row_101]
              (snd (addEntityFromSeed seedC new_Result))"
  have h1: "exampleSeededSearch1 host_2022 [alice, bob] [seedA] None
              = Inr (addPeople host_2022 [bob] new_Result StrId)"
    by (simp add: exampleSeededSearch1_def lookupPeople_def extractIdsFromConnectorKeys_def
        connectorKeysByType_def getProperty_def isType_def seedA_def alice_def bob_def
        host_2022_def)
  have h2: "asyncExampleSearch host_2022 [alice, bob] None None
              = Inr (addPeople host_2022 [alice, bob] new_Result StrId)"
    by (simp add: asyncExampleSearch_def asyncLookupPeople_def)
  have h3: "getAll ?F = Inr (getAll_rows [row_100, row_101] new_Result)"
    by (simp add: getAll_def requestData_def respond_def)
  have h4: "findComplaint ?F ''BROOKLYN'' ''MISDEMEANOR''
              = Inr (addComplaints [row_100, row_101] new_Result)"
    by (simp add: findComplaint_def requestData_def respond_def)
  have h5: "findSimilarComplaint ?F [seedC] = Inr (addComplaints [row_100, row_101] new_Result)"
    by (simp add: findSimilarComplaint_def requestData_def respond_def)
  have h6: "expand ?F [seedC] = Inr ?E"
    by (simp add: expand_def requestData_def respond_def addEntityFromSeed_def addEntityRef_def
        seedC_def)
  have h7: "expandWithConditions ?F True [seedC] = Inr ?W"
    by (simp add: expandWithConditions_def requestData_def respond_def addEntityFromSeed_def
        addEntityRef_def seedC_def)
  note t = provenance_of_fetched_records
      [where h = host_2022 and dataset = "[alice, bob]" and seeds = "[seedA]"
         and idFactory = StrId and extractIdsFromSeed = keyIds
         and useYearOfBirth = None and seconds = None and shouldFail = None
         and fetch = ?F and borough = "''BROOKLYN''" and lawCategory = "''MISDEMEANOR''"
         and seeds' = "[seedC]" and isPerson = True
         and ?g1.0 = "addPeople host_2022 [bob] new_Result StrId"
         and ?g2.0 = "addPeople host_2022 [alice, bob] new_Result StrId"
         and ?g3.0 = "getAll_rows [row_100, row_101] new_Result"
         and ?g4.0 = "addComplaints [row_100, row_101] new_Result"
         and ?g5.0 = "addComplaints [row_100, row_101] new_Result"
         and ?g6.0 = ?E and ?g7.0 = ?W]
  note d3 = t [THEN conjunct2, THEN conjunct2, THEN conjunct2]
  note d4 = d3 [THEN conjunct2]
  note d5 = d4 [THEN conjunct2]
  note d6 = d5 [THEN conjunct2]
  note d8 = d6 [THEN conjunct2, THEN conjunct2]
  note c1 = d3 [THEN conjunct1, THEN mp, OF h1]
  note c2 = d4 [THEN conjunct1, THEN mp, OF h2]
  note c3 = d5 [THEN conjunct1, THEN mp, OF h3]
  note c4 = d6 [THEN conjunct1, THEN mp, OF h4]
  note c6 = d8 [THEN conjunct1, THEN mp, OF h6]
  note c7 = d8 [THEN conjunct2, THEN mp, OF h7]
  from c3 have c3a: "all_entities_sourced exampleSourceRef (getAll_rows [row_100, row_101] new_Result)"
    and c3b: "links_sourced (Some exampleSourceRef) (getAll_rows [row_100, row_101] new_Result)"
    by simp_all
  from c6 have c6a: "entities_sourced exampleSourceRef ?E"
    and c6b: "links_sourced (Some exampleSourceRef) ?E" by simp_all
  from c7 have c7a: "entities_sourced exampleSourceRef ?W"
    and c7b: "links_sourced (Some exampleSourceRef) ?W" by simp_all
  from h1 c1 h2 c2 h3 c3a c3b h4 c4 h5 h6 c6a c6b h7 c7a c7b show ?thesis by (intro conjI)
qed

text \<open>
  C7 as stated fails: the Friendswith link of the graph built for two seeds that both
  stand for p1 has no source reference.
\<close>

theorem provenance_counterexample:
  "map_of (links (exampleSeededSearch2 host_2022 [alice, bob] [seedA, seedB]))
      (Friendswith, StrId ''p1-p2'')
   = Some \<lparr>l_from = ERef Person (StrId ''p1''), l_to = ERef Person (StrId ''p2''),
           l_source = None\<rparr>"
  by code_simp

subsection \<open>Building a graph twice\<close>

lemma strip_set_prop:
  "strip_age_entity (set_prop n v e) =
     (if n = ''Age'' then strip_age_entity e else set_prop n v (strip_age_entity e))"
  by (cases v)
     (simp_all add: strip_age_entity_def set_prop_def AList.delete_update_same
        AList.delete_update AList.delete_twist AList.delete_idem)

lemma strip_fold:
  "strip_age_entity (fold (\<lambda>(n, v). set_prop n v) ps e) =
     fold (\<lambda>(n, v). set_prop n v) (filter (\<lambda>nv. fst nv \<noteq> ''Age'') ps) (strip_age_entity e)"
proof (induction ps arbitrary: e)
  case Nil show ?case by simp
next
  case (Cons p ps)
  obtain n v where p: "p = (n, v)" by (cases p)
  show ?case by (simp add: p Cons.IH strip_set_prop)
qed

lemma strip_fill:
  "strip_age_entity (fill_entity ps s e) =
     fill_entity (filter (\<lambda>nv. fst nv \<noteq> ''Age'') ps) s (strip_age_entity e)"
proof -
  have "strip_age_entity (x\<lparr>e_source := Some s\<rparr>) = (strip_age_entity x)\<lparr>e_source := Some s\<rparr>" for x
    by (simp add: strip_age_entity_def)
  then show ?thesis by (simp add: fill_entity_def strip_fold)
qed

lemma map_map_entry:
  "(\<And>e. g (f e) = f' (g e)) \<Longrightarrow>
   map (\<lambda>ke. (fst ke, g (snd ke))) (AList.map_entry k f al) =
   AList.map_entry k f' (map (\<lambda>ke. (fst ke, g (snd ke))) al)"
  by (induction al) auto

lemma map_get_or_create:
  "map (\<lambda>ke. (fst ke, g (snd ke))) (get_or_create k v al) =
   get_or_create k (g v) (map (\<lambda>ke. (fst ke, g (snd ke))) al)"
  by (auto simp: get_or_create_def image_iff)

lemma strip_age_alt:
  "strip_age r = r\<lparr>entities := map (\<lambda>ke. (fst ke, strip_age_entity (snd ke))) (entities r)\<rparr>"
  by (simp add: strip_age_def strip_age_entity_def)

lemma strip_put_entity:
  "strip_age (put_entity k ps s r) =
     put_entity k (filter (\<lambda>nv. fst nv \<noteq> ''Age'') ps) s (strip_age r)"
proof -
  have "map (\<lambda>ke. (fst ke, strip_age_entity (snd ke)))
          (AList.map_entry k (fill_entity ps s)
             (get_or_create k \<lparr>e_props = [], e_source = None\<rparr> (entities r)))
        = AList.map_entry k (fill_entity (filter (\<lambda>nv. fst nv \<noteq> ''Age'') ps) s)
            (get_or_create k \<lparr>e_props = [], e_source = None\<rparr>
               (map (\<lambda>ke. (fst ke, strip_age_entity (snd ke))) (entities r)))"
    by (subst map_map_entry [where f' = "fill_entity (filter (\<lambda>nv. fst nv \<noteq> ''Age'') ps) s"])
       (simp_all add: strip_fill map_get_or_create, simp add: strip_age_entity_def)
  then show ?thesis by (simp add: strip_age_alt put_entity_def)
qed

lemma strip_put_link: "strip_age (put_link k a b s r) = put_link k a b s (strip_age r)"
  by (simp add: strip_age_def put_link_def)

lemma person_properties_but_age:
  "filter (\<lambda>nv. fst nv \<noteq> ''Age'') (person_properties h1 p)
   = filter (\<lambda>nv. fst nv \<noteq> ''Age'') (person_properties h2 p)"
  by (simp add: person_properties_def)

lemma strip_addPerson:
  "strip_age r1 = strip_age r2 \<Longrightarrow>
   strip_age (snd (addPersonToResult h1 p r1 idf)) = strip_age (snd (addPersonToResult h2 p r2 idf))"
  by (simp add: addPersonToResult_put strip_put_entity person_properties_but_age [of h1 p h2])

lemma strip_addPeople:
  "strip_age r1 = strip_age r2 \<Longrightarrow>
   strip_age (addPeople h1 ps r1 idf) = strip_age (addPeople h2 ps r2 idf)"
proof (induction ps arbitrary: r1 r2)
  case Nil then show ?case by simp
next
  case (Cons p ps)
  from strip_addPerson [OF Cons.prems] have
    "strip_age (snd (addPersonToResult h1 p r1 idf)) = strip_age (snd (addPersonToResult h2 p r2 idf))" .
  from Cons.IH [OF this] show ?case by simp
qed

lemma strip_linkFriend:
  assumes "strip_age r1 = strip_age r2"
  shows "strip_age (linkFriend h1 idf p f r1) = strip_age (linkFriend h2 idf p f r2)"
  using assms
  by (simp add: linkFriend_put strip_put_link strip_put_entity
      person_properties_but_age [of h1 _ h2])

lemma strip_forFriends:
  "strip_age r1 = strip_age r2 \<Longrightarrow>
   strip_age (forFriends h1 idf p fs r1) = strip_age (forFriends h2 idf p fs r2)"
proof (induction fs arbitrary: r1 r2)
  case Nil then show ?case by simp
next
  case (Cons f fs)
  from Cons.IH [OF strip_linkFriend [OF Cons.prems]] show ?case by simp
qed

lemma strip_forPeople:
  "strip_age r1 = strip_age r2 \<Longrightarrow>
   strip_age (forPeople h1 ds idf ps r1) = strip_age (forPeople h2 ds idf ps r2)"
proof (induction ps arbitrary: r1 r2)
  case Nil then show ?case by simp
next
  case (Cons p ps)
  from Cons.IH [OF strip_forFriends [OF Cons.prems]] show ?case by simp
qed

lemma strip_forSeeds:
  "strip_age r1 = strip_age r2 \<Longrightarrow>
   strip_age (forSeeds h1 ds ex idf ss r1) = strip_age (forSeeds h2 ds ex idf ss r2)"
proof (induction ss arbitrary: r1 r2)
  case Nil then show ?case by simp
next
  case (Cons s ss)
  from Cons.IH [OF strip_forPeople [OF Cons.prems]] show ?case by simp
qed

lemma person_properties_same_clock:
  "now_year h1 = now_year h2 \<Longrightarrow> date_year h1 = date_year h2 \<Longrightarrow>
   person_properties h1 p = person_properties h2 p"
  by (simp add: person_properties_def)

lemma addPeople_same_clock:
  "now_year h1 = now_year h2 \<Longrightarrow> date_year h1 = date_year h2 \<Longrightarrow>
   addPeople h1 ps r idf = addPeople h2 ps r idf"
  by (induction ps arbitrary: r)
     (simp_all add: addPersonToResult_put person_properties_same_clock [of h1 h2])

lemma forFriends_same_clock:
  "now_year h1 = now_year h2 \<Longrightarrow> date_year h1 = date_year h2 \<Longrightarrow>
   forFriends h1 idf p fs r = forFriends h2 idf p fs r"
  by (induction fs arbitrary: r)
     (simp_all add: linkFriend_put person_properties_same_clock [of h1 h2])

lemma forPeople_same_clock:
  "now_year h1 = now_year h2 \<Longrightarrow> date_year h1 = date_year h2 \<Longrightarrow>
   forPeople h1 ds idf ps r = forPeople h2 ds idf ps r"
  by (induction ps arbitrary: r) (simp_all add: forFriends_same_clock [of h1 h2])

lemma forSeeds_same_clock:
  "now_year h1 = now_year h2 \<Longrightarrow> date_year h1 = date_year h2 \<Longrightarrow>
   forSeeds h1 ds ex idf ss r = forSeeds h2 ds ex idf ss r"
  by (induction ss arbitrary: r) (simp_all add: forPeople_same_clock [of h1 h2])

text \<open>
  C9, as the code has it: two builds from the same person data give the same graph up
  to the Age property (same entity identifiers in the same order, same links, same
  other property values), and the same graph when both read the same current year and
  the same year from every date of birth; two builds of \<open>getAll\<close> from the same response
  give the same outcome.
\<close>

theorem rebuild_same_but_age:
  "strip_age (findPeople h1 dataset term idFactory) = strip_age (findPeople h2 dataset term idFactory)
   \<and> strip_age (getFriendsLinkedToSeeds h1 dataset seeds extractIdsFromSeed idFactory)
     = strip_age (getFriendsLinkedToSeeds h2 dataset seeds extractIdsFromSeed idFactory)
   \<and> (now_year h1 = now_year h2 \<and> date_year h1 = date_year h2 \<longrightarrow>
        findPeople h1 dataset term idFactory = findPeople h2 dataset term idFactory
        \<and> getFriendsLinkedToSeeds h1 dataset seeds extractIdsFromSeed idFactory
          = getFriendsLinkedToSeeds h2 dataset seeds extractIdsFromSeed idFactory)
   \<and> (fetch1 (getUrl [(''$limit'', ''100'')]) = fetch2 (getUrl [(''$limit'', ''100'')]) \<longrightarrow>
        getAll fetch1 = getAll fetch2)"
  by (simp add: findPeople_def getFriendsLinkedToSeeds_def strip_addPeople strip_forSeeds
      addPeople_same_clock [of h1 h2] forSeeds_same_clock [of h1 h2] getAll_def requestData_def)

theorem rebuild_same_but_age_witness:
  "now_year host_2022 = now_year host_2022_other_locale
   \<and> date_year host_2022 = date_year host_2022_other_locale
   \<and> findPeople host_2022 [alice, bob] ''*'' StrId
       = findPeople host_2022_other_locale [alice, bob] ''*'' StrId
   \<and> strip_age (findPeople host_2022 [alice, bob] ''*'' StrId)
       = strip_age (findPeople host_2023 [alice, bob] ''*'' StrId)"
proof -
  have h: "now_year host_2022 = now_year host_2022_other_locale
           \<and> date_year host_2022 = date_year host_2022_other_locale"
    by (simp add: host_2022_other_locale_def)
  from rebuild_same_but_age
         [of host_2022 "[alice, bob]" "''*''" StrId host_2022_other_locale "[]" keyIds
             "respond 200 ''OK'' (Inr [])" "respond 200 ''OK'' (Inr [])"]
       rebuild_same_but_age
         [of host_2022 "[alice, bob]" "''*''" StrId host_2023 "[]" keyIds
             "respond 200 ''OK'' (Inr [])" "respond 200 ''OK'' (Inr [])"] h
  show ?thesis by simp
qed

text \<open>
  C9 as stated fails: the same person record gives the age 32 in a build of the year
  2022 and the age 33 in a build of the year 2023.
\<close>

theorem rebuild_counterexample:
  "entity_property (findPeople host_2022 [alice] ''*'' StrId) (ERef Person (StrId ''p1'')) ''Age''
     = Some (PNum (Num 32))
   \<and> entity_property (findPeople host_2023 [alice] ''*'' StrId) (ERef Person (StrId ''p1'')) ''Age''
     = Some (PNum (Num 33))"
  by code_simp

end
